theory Spec2Isabelle
  imports Main "HOL-Library.Sublist"
begin

section \<open>Python values\<close>

text \<open>
  The program is a Python script (\<^verbatim>\<open>post_to_linkedin.py\<close> with its settings in
  \<^verbatim>\<open>config.py\<close>). The documents it handles (the calendar entries, the bodies of
  the HTTP responses, the payloads it sends) are JSON values, held in Python as
  \<^verbatim>\<open>None\<close>, \<^verbatim>\<open>bool\<close>, \<^verbatim>\<open>int\<close>, \<^verbatim>\<open>str\<close>, \<^verbatim>\<open>list\<close> and \<^verbatim>\<open>dict\<close>. A dict is an
  association list, read with \<^const>\<open>map_of\<close>; a string is its UTF-8 bytes. Floating
  point numbers are left out.
\<close>

datatype pyval =
    PNone
  | PBool bool
  | PInt int
  | PStr string
  | PList "pyval list"
  | PDict "(string \<times> pyval) list"

type_synonym pydict = "(string \<times> pyval) list"

text \<open>Truth value of a Python object, as \<^verbatim>\<open>if not x\<close> tests it.\<close>

fun truthy :: "pyval \<Rightarrow> bool" where
  "truthy PNone = False"
| "truthy (PBool b) = b"
| "truthy (PInt i) = (i \<noteq> 0)"
| "truthy (PStr s) = (s \<noteq> [])"
| "truthy (PList xs) = (xs \<noteq> [])"
| "truthy (PDict d) = (d \<noteq> [])"

text \<open>
  \<^verbatim>\<open>if not config.X\<close> on a setting read with \<^verbatim>\<open>os.environ.get\<close>: the variable is
  unset (\<^verbatim>\<open>None\<close>) or the empty string.
\<close>

fun unset :: "string option \<Rightarrow> bool" where
  "unset None = True"
| "unset (Some s) = (s = [])"

fun type_name :: "pyval \<Rightarrow> string" where
  "type_name PNone = ''NoneType''"
| "type_name (PBool b) = ''bool''"
| "type_name (PInt i) = ''int''"
| "type_name (PStr s) = ''str''"
| "type_name (PList xs) = ''list''"
| "type_name (PDict d) = ''dict''"

subsection \<open>Decimal numerals\<close>

definition digit_char :: "nat \<Rightarrow> char" where
  "digit_char n = ''0123456789'' ! n"

function str_nat :: "nat \<Rightarrow> string" where
  "str_nat n = (if n < 10 then [digit_char n] else str_nat (n div 10) @ [digit_char (n mod 10)])"
  by pat_completeness auto
termination
  by (relation "measure (\<lambda>n. n)") auto

declare str_nat.simps [simp del]

definition str_int :: "int \<Rightarrow> string" where
  "str_int i = (if i < 0 then CHR ''-'' # str_nat (nat (- i)) else str_nat (nat i))"

text \<open>\<^verbatim>\<open>len(s)\<close> counts code points: the bytes of \<open>s\<close> that do not continue a UTF-8 sequence.\<close>

definition py_len :: "string \<Rightarrow> nat" where
  "py_len s = length (filter (\<lambda>c. \<not> (128 \<le> (of_char c :: nat) \<and> (of_char c :: nat) < 192)) s)"

subsection \<open>Exceptions\<close>

text \<open>
  Every exception of the model is an instance of Python's \<^verbatim>\<open>Exception\<close>, so an
  \<^verbatim>\<open>except Exception\<close> clause catches it. \<open>Exception m\<close> is the \<^verbatim>\<open>raise Exception(m)\<close>
  of the script; \<open>KeyError k\<close> is \<^verbatim>\<open>d[k]\<close> on a dict without the key \<open>k\<close>; \<open>Raised c m\<close>
  is an exception of class \<open>c\<close> with message \<open>m\<close> raised by the interpreter or inside a
  library (the transport, the JSON decoder, the file system, the language-model client).
  \<^verbatim>\<open>sys.exit\<close> raises \<^verbatim>\<open>SystemExit\<close>, which is not an \<^verbatim>\<open>Exception\<close>: it is a result of
  its own below.
\<close>

datatype exn =
    Exception string
  | KeyError string
  | Raised string string

text \<open>\<^verbatim>\<open>str(e)\<close>, what \<^verbatim>\<open>f"{e}"\<close> prints. A \<^verbatim>\<open>KeyError\<close> prints the key quoted.\<close>

fun exn_str :: "exn \<Rightarrow> string" where
  "exn_str (Exception m) = m"
| "exn_str (KeyError k) = [CHR 0x27] @ k @ [CHR 0x27]"
| "exn_str (Raised c m) = m"

section \<open>Dates\<close>

text \<open>
  A \<^verbatim>\<open>datetime.date\<close>. Python keeps \<open>1 \<le> year \<le> 9999\<close>, \<open>1 \<le> month \<le> 12\<close> and the day
  within the month. \<^verbatim>\<open>isoformat\<close> prints \<^verbatim>\<open>%04d-%02d-%02d\<close>; \<^verbatim>\<open>weekday\<close> is
  \<^verbatim>\<open>(toordinal() + 6) % 7\<close> with Monday 0, over the proleptic Gregorian ordinal;
  \<^verbatim>\<open>strftime("%A")\<close> names that day (in the C locale, which the script never changes).
\<close>

record date =
  year :: nat
  month :: nat
  day :: nat

definition zfill :: "nat \<Rightarrow> string \<Rightarrow> string" where
  "zfill k s = replicate (k - length s) (CHR ''0'') @ s"

definition isoformat :: "date \<Rightarrow> string" where
  "isoformat d =
     zfill 4 (str_nat (year d)) @ ''-'' @ zfill 2 (str_nat (month d)) @ ''-'' @ zfill 2 (str_nat (day d))"

definition is_leap :: "nat \<Rightarrow> bool" where
  "is_leap y = (y mod 4 = 0 \<and> (y mod 100 \<noteq> 0 \<or> y mod 400 = 0))"

definition days_before_year :: "nat \<Rightarrow> nat" where
  "days_before_year y = (let y1 = y - 1 in y1 * 365 + y1 div 4 - y1 div 100 + y1 div 400)"

definition days_before_month :: "nat \<Rightarrow> nat \<Rightarrow> nat" where
  "days_before_month y m =
     [0, 31, 59, 90, 120, 151, 181, 212, 243, 273, 304, 334] ! (m - 1)
       + (if m > 2 \<and> is_leap y then 1 else 0)"

definition toordinal :: "date \<Rightarrow> nat" where
  "toordinal d = days_before_year (year d) + days_before_month (year d) (month d) + day d"

definition weekday :: "date \<Rightarrow> nat" where
  "weekday d = (toordinal d + 6) mod 7"

text \<open>\<^verbatim>\<open>target_date.strftime("%A").lower()\<close>\<close>

definition day_name :: "date \<Rightarrow> string" where
  "day_name d =
     [''monday'', ''tuesday'', ''wednesday'', ''thursday'', ''friday'', ''saturday'', ''sunday'']
       ! weekday d"

section \<open>Settings (config.py)\<close>

definition LINKEDIN_API_BASE :: string where
  "LINKEDIN_API_BASE = ''https://api.linkedin.com/v2''"

definition LINKEDIN_UPLOAD_URL :: string where
  "LINKEDIN_UPLOAD_URL = LINKEDIN_API_BASE @ ''/assets?action=registerUpload''"

definition LINKEDIN_POSTS_URL :: string where
  "LINKEDIN_POSTS_URL = LINKEDIN_API_BASE @ ''/posts''"

definition CLAUDE_MODEL :: string where
  "CLAUDE_MODEL = ''claude-sonnet-4-20250514''"

definition POSTING_DAYS :: "(string \<times> string) list" where
  "POSTING_DAYS = [(''sunday'', ''gene''), (''tuesday'', ''intervention''), (''thursday'', ''topic'')]"

definition MAX_POST_LENGTH :: nat where
  "MAX_POST_LENGTH = 3000"

text \<open>The settings read from the environment when the module is imported.\<close>

record config =
  ANTHROPIC_API_KEY :: "string option"
  LINKEDIN_ACCESS_TOKEN :: "string option"
  SLACK_WEBHOOK_URL :: "string option"

section \<open>The world of one run\<close>

text \<open>
  Everything the script reads from outside is a field of \<open>world\<close>: the command line, the
  environment, the clock, the files, the remote services, and the library functions whose
  text output the model does not compute (\<^verbatim>\<open>date.fromisoformat\<close>, \<^verbatim>\<open>json.dumps\<close>, the
  \<^verbatim>\<open>repr\<close> of a list or dict, the joining of a path, the message of a \<^verbatim>\<open>TypeError\<close>).
  A call that can raise returns \<open>Inl\<close> of the exception.
\<close>

type_synonym headers = "(string \<times> string) list"

datatype request =
    GET string headers
  | POST string headers pyval
  | PUT string headers string

text \<open>A \<^verbatim>\<open>requests.Response\<close>: \<open>resp_text\<close> is \<^verbatim>\<open>.text\<close>, \<open>resp_json\<close> is \<^verbatim>\<open>.json()\<close>.\<close>

record response =
  status_code :: int
  resp_text :: string
  resp_json :: "exn + pyval"

text \<open>The parsed command line: \<^verbatim>\<open>--dry-run\<close>, \<^verbatim>\<open>--date\<close> (here \<open>date_opt\<close>), \<^verbatim>\<open>--force\<close>.\<close>

record args =
  dry_run :: bool
  date_opt :: "string option"
  force :: bool

record world =
  args :: args
  config :: config
  today :: date
  fromisoformat :: "string \<Rightarrow> exn + date"
  calendar_json :: "exn + pydict list"
  system_prompt_txt :: "exn + string"
  images_dir_join :: "string \<Rightarrow> string"
  path_exists :: "string \<Rightarrow> exn + bool"
  read_bytes :: "string \<Rightarrow> exn + string"
  messages_create :: "string option \<Rightarrow> string \<Rightarrow> nat \<Rightarrow> string \<Rightarrow> string \<Rightarrow> exn + string list"
  requests :: "request \<Rightarrow> exn + response"
  json_dumps :: "pyval \<Rightarrow> string"
  py_repr :: "pyval \<Rightarrow> string"
  type_error_msg :: "string \<Rightarrow> pyval \<Rightarrow> string"

subsection \<open>Effects\<close>

text \<open>
  A run leaves a trace: the log records, the calls handed to \<^verbatim>\<open>requests\<close> (each tagged
  with the operation of the script that makes it) and the calls to the language model.
  A call is in the trace whether it comes back with a response or raises.
\<close>

datatype level = INFO | WARNING | ERROR

datatype api = UserInfo | RegisterUpload | UploadBinary | Publish | Webhook

datatype event =
    Log level string
  | Http api request
  | LLM "string option" string nat string string

fun is_http :: "event \<Rightarrow> bool" where
  "is_http (Http a r) = True"
| "is_http e = False"

fun is_network :: "event \<Rightarrow> bool" where
  "is_network (Log l m) = False"
| "is_network e = True"

text \<open>
  How a piece of the script ends: with a value, at a \<^verbatim>\<open>return\<close> of \<^verbatim>\<open>main\<close> before its
  last line, with an exception, or at \<^verbatim>\<open>sys.exit(n)\<close>.
\<close>

datatype 'a result = Ok 'a | Return | Raise exn | SysExit int

type_synonym 'a comp = "event list \<times> 'a result"

definition ret :: "'a \<Rightarrow> 'a comp" where
  "ret a = ([], Ok a)"

definition return_main :: "'a comp" where
  "return_main = ([], Return)"

definition raise :: "exn \<Rightarrow> 'a comp" where
  "raise e = ([], Raise e)"

definition sys_exit :: "int \<Rightarrow> 'a comp" where
  "sys_exit n = ([], SysExit n)"

definition of_sum :: "exn + 'a \<Rightarrow> 'a comp" where
  "of_sum x = (case x of Inl e \<Rightarrow> raise e | Inr a \<Rightarrow> ret a)"

text \<open>Sequencing: the second part runs only when the first ends with a value.\<close>

definition thn :: "'a comp \<Rightarrow> ('a \<Rightarrow> 'b comp) \<Rightarrow> 'b comp" where
  "thn m f =
     (case snd m of
        Ok a \<Rightarrow> (fst m @ fst (f a), snd (f a))
      | Return \<Rightarrow> (fst m, Return)
      | Raise e \<Rightarrow> (fst m, Raise e)
      | SysExit n \<Rightarrow> (fst m, SysExit n))"

text \<open>\<^verbatim>\<open>try: m except Exception as e: h\<close>. \<^verbatim>\<open>SystemExit\<close> passes through.\<close>

definition try_except :: "'a comp \<Rightarrow> (exn \<Rightarrow> 'a comp) \<Rightarrow> 'a comp" where
  "try_except m h =
     (case snd m of
        Raise e \<Rightarrow> (fst m @ fst (h e), snd (h e))
      | _ \<Rightarrow> m)"

definition logger :: "level \<Rightarrow> string \<Rightarrow> unit comp" where
  "logger l m = ([Log l m], Ok ())"

definition http :: "world \<Rightarrow> api \<Rightarrow> request \<Rightarrow> response comp" where
  "http w a r = ([Http a r], case requests w r of Inl e \<Rightarrow> Raise e | Inr resp \<Rightarrow> Ok resp)"

text \<open>The exit status of the process when \<^verbatim>\<open>main\<close> ends this way.\<close>

fun exit_status :: "'a result \<Rightarrow> int" where
  "exit_status (Ok a) = 0"
| "exit_status Return = 0"
| "exit_status (Raise e) = 1"
| "exit_status (SysExit n) = n"

subsection \<open>Formatting and dict access\<close>

definition quoted :: "string \<Rightarrow> string" where
  "quoted s = [CHR 0x27] @ s @ [CHR 0x27]"

text \<open>\<^verbatim>\<open>str(v)\<close>, what an f-string prints for \<open>v\<close>.\<close>

fun py_str :: "world \<Rightarrow> pyval \<Rightarrow> string" where
  "py_str w PNone = ''None''"
| "py_str w (PBool b) = (if b then ''True'' else ''False'')"
| "py_str w (PInt i) = str_int i"
| "py_str w (PStr s) = s"
| "py_str w (PList xs) = py_repr w (PList xs)"
| "py_str w (PDict d) = py_repr w (PDict d)"

text \<open>An optional setting in an f-string.\<close>

fun opt_str :: "string option \<Rightarrow> string" where
  "opt_str None = ''None''"
| "opt_str (Some s) = s"

text \<open>\<^verbatim>\<open>d[k]\<close>, \<^verbatim>\<open>d.get(k)\<close> and \<^verbatim>\<open>d.get(k, default)\<close> on a dict.\<close>

definition dict_item :: "pydict \<Rightarrow> string \<Rightarrow> exn + pyval" where
  "dict_item d k = (case map_of d k of Some v \<Rightarrow> Inr v | None \<Rightarrow> Inl (KeyError k))"

definition dict_get :: "pydict \<Rightarrow> string \<Rightarrow> pyval \<Rightarrow> pyval" where
  "dict_get d k dflt = (case map_of d k of Some v \<Rightarrow> v | None \<Rightarrow> dflt)"

text \<open>\<^verbatim>\<open>v[k]\<close> and \<^verbatim>\<open>v.get(k, default)\<close> on a decoded JSON value, which may not be a dict.\<close>

definition subscript :: "world \<Rightarrow> pyval \<Rightarrow> string \<Rightarrow> exn + pyval" where
  "subscript w v k =
     (case v of
        PDict d \<Rightarrow> dict_item d k
      | _ \<Rightarrow> Inl (Raised ''TypeError'' (type_error_msg w ''[]'' v)))"

definition py_get :: "pyval \<Rightarrow> string \<Rightarrow> pyval \<Rightarrow> exn + pyval" where
  "py_get v k dflt =
     (case v of
        PDict d \<Rightarrow> Inr (dict_get d k dflt)
      | _ \<Rightarrow> Inl (Raised ''AttributeError''
                 (quoted (type_name v) @ '' object has no attribute '' @ quoted ''get'')))"

section \<open>The script (post_to_linkedin.py)\<close>

subsection \<open>Calendar\<close>

text \<open>
  \<^verbatim>\<open>load_calendar\<close>: the calendar file decoded, an array of entries, each a dict; opening
  or decoding the file may raise.
\<close>

definition load_calendar :: "world \<Rightarrow> pydict list comp" where
  "load_calendar w = of_sum (calendar_json w)"

text \<open>
  The loop of \<^verbatim>\<open>get_todays_post\<close>: \<^verbatim>\<open>post.get('date') == target_str\<close> holds when the
  field is the string \<open>target_str\<close>; a missing field reads as \<^verbatim>\<open>None\<close>.
\<close>

fun find_post :: "string \<Rightarrow> pydict list \<Rightarrow> pydict option" where
  "find_post target_str [] = None"
| "find_post target_str (post # calendar) =
     (if dict_get post ''date'' PNone = PStr target_str then Some post
      else find_post target_str calendar)"

definition get_todays_post :: "world \<Rightarrow> pydict list \<Rightarrow> date option \<Rightarrow> pydict option" where
  "get_todays_post w calendar target_date =
     (let target_date = (case target_date of None \<Rightarrow> today w | Some d \<Rightarrow> d);
          target_str = isoformat target_date
      in find_post target_str calendar)"

subsection \<open>Text generation\<close>

definition load_system_prompt :: "world \<Rightarrow> string comp" where
  "load_system_prompt w = of_sum (system_prompt_txt w)"

definition nl :: string where
  "nl = [CHR 0x0A]"

text \<open>The three emoji of the prompt and the two of the notification, as UTF-8.\<close>

definition emoji_dna :: string where
  "emoji_dna = [CHR 0xF0, CHR 0x9F, CHR 0xA7, CHR 0xAC]"

definition emoji_pill :: string where
  "emoji_pill = [CHR 0xF0, CHR 0x9F, CHR 0x92, CHR 0x8A]"

definition emoji_chart :: string where
  "emoji_chart = [CHR 0xF0, CHR 0x9F, CHR 0x93, CHR 0x8A]"

definition emoji_check :: string where
  "emoji_check = [CHR 0xE2, CHR 0x9C, CHR 0x85]"

definition emoji_cross :: string where
  "emoji_cross = [CHR 0xE2, CHR 0x9D, CHR 0x8C]"

definition user_prompt :: "world \<Rightarrow> pyval \<Rightarrow> pyval \<Rightarrow> pyval \<Rightarrow> string" where
  "user_prompt w post_type week content_data =
     ''Generate a LinkedIn post for the following content:'' @ nl @ nl
     @ ''Post Type: '' @ py_str w post_type @ nl
     @ ''Week: '' @ py_str w week @ nl @ nl
     @ ''Content Data:'' @ nl
     @ json_dumps w content_data @ nl @ nl
     @ ''Remember to:'' @ nl
     @ ''1. Start with an engaging hook'' @ nl
     @ ''2. Use the emoji appropriate for the post type ('' @ emoji_dna @ '' for gene, ''
       @ emoji_pill @ '' for intervention, '' @ emoji_chart @ '' for topic)'' @ nl
     @ ''3. Include key information in an accessible way'' @ nl
     @ ''4. End with the dual CTA for physicians and patients'' @ nl
     @ ''5. Add relevant hashtags'' @ nl
     @ ''6. Keep under 3000 characters total'' @ nl"

definition llm :: "world \<Rightarrow> string option \<Rightarrow> string \<Rightarrow> nat \<Rightarrow> string \<Rightarrow> string \<Rightarrow> string list comp" where
  "llm w key model max_tokens system content =
     ([LLM key model max_tokens system content],
      case messages_create w key model max_tokens system content of
        Inl e \<Rightarrow> Raise e | Inr blocks \<Rightarrow> Ok blocks)"

text \<open>
  \<^verbatim>\<open>generate_post_text\<close>. The client is the API key it was built with; the response is
  the list of its text blocks, and \<^verbatim>\<open>content[0]\<close> of an empty list raises.
\<close>

definition generate_post_text :: "world \<Rightarrow> pydict \<Rightarrow> string option \<Rightarrow> string comp" where
  "generate_post_text w post_data client =
     thn (load_system_prompt w) (\<lambda>system_prompt.
     thn (of_sum (dict_item post_data ''post_type'')) (\<lambda>post_type.
     thn (of_sum (dict_item post_data ''week'')) (\<lambda>week.
     thn (of_sum (dict_item post_data ''content_data'')) (\<lambda>content_data.
     thn (logger INFO ''Generating post text with Claude...'') (\<lambda>_.
     thn (llm w client CLAUDE_MODEL 1500 system_prompt (user_prompt w post_type week content_data))
       (\<lambda>content.
     thn (case content of
            [] \<Rightarrow> raise (Raised ''IndexError'' ''list index out of range'')
          | t # _ \<Rightarrow> ret t) (\<lambda>generated_text.
     thn (logger INFO (''Generated '' @ str_nat (py_len generated_text) @ '' characters of post text''))
       (\<lambda>_.
     ret generated_text))))))))"

subsection \<open>Identity resolution\<close>

definition USERINFO_URL :: string where
  "USERINFO_URL = ''https://api.linkedin.com/v2/userinfo''"

definition get_person_urn :: "world \<Rightarrow> string option \<Rightarrow> string comp" where
  "get_person_urn w access_token =
     (let headers = [(''Authorization'', ''Bearer '' @ opt_str access_token)] in
      thn (http w UserInfo (GET USERINFO_URL headers)) (\<lambda>response.
      thn (if status_code response \<noteq> 200
           then thn (logger ERROR (''Failed to get user info: '' @ resp_text response)) (\<lambda>_.
                raise (Exception (''Failed to get LinkedIn user info: ''
                                   @ str_int (status_code response))))
           else ret ()) (\<lambda>_.
      thn (of_sum (resp_json response)) (\<lambda>data.
      thn (of_sum (py_get data ''sub'' PNone)) (\<lambda>person_id.
      thn (of_sum (py_get data ''name'' (PStr ''Unknown''))) (\<lambda>name.
      thn (logger INFO (''Authenticated as: '' @ py_str w name)) (\<lambda>_.
      ret (''urn:li:person:'' @ py_str w person_id))))))))"

subsection \<open>Upload and publish\<close>

definition register_payload :: "string \<Rightarrow> pyval" where
  "register_payload person_urn =
     PDict [(''registerUploadRequest'', PDict [
       (''recipes'', PList [PStr ''urn:li:digitalmediaRecipe:feedshare-image'']),
       (''owner'', PStr person_urn),
       (''serviceRelationships'', PList [PDict [
          (''relationshipType'', PStr ''OWNER''),
          (''identifier'', PStr ''urn:li:userGeneratedContent'')]])])]"

definition json_headers :: "string option \<Rightarrow> headers" where
  "json_headers access_token =
     [(''Authorization'', ''Bearer '' @ opt_str access_token),
      (''Content-Type'', ''application/json''),
      (''X-Restli-Protocol-Version'', ''2.0.0'')]"

text \<open>
  \<^verbatim>\<open>upload_image_to_linkedin\<close>. \<^verbatim>\<open>requests\<close> takes the \<^verbatim>\<open>str\<close> of the URL it is given,
  whatever the registration response held under \<^verbatim>\<open>uploadUrl\<close>.
\<close>

definition upload_image_to_linkedin :: "world \<Rightarrow> string \<Rightarrow> string option \<Rightarrow> string \<Rightarrow> pyval comp" where
  "upload_image_to_linkedin w image_path access_token person_urn =
     thn (logger INFO ''Registering image upload with LinkedIn...'') (\<lambda>_.
     thn (http w RegisterUpload
            (POST LINKEDIN_UPLOAD_URL (json_headers access_token) (register_payload person_urn)))
       (\<lambda>register_response.
     thn (if status_code register_response \<noteq> 200
          then thn (logger ERROR (''Failed to register upload: '' @ resp_text register_response)) (\<lambda>_.
               raise (Exception (''LinkedIn upload registration failed: ''
                                  @ str_int (status_code register_response))))
          else ret ()) (\<lambda>_.
     thn (of_sum (resp_json register_response)) (\<lambda>register_data.
     thn (of_sum (subscript w register_data ''value'')) (\<lambda>v1.
     thn (of_sum (subscript w v1 ''uploadMechanism'')) (\<lambda>v2.
     thn (of_sum (subscript w v2 ''com.linkedin.digitalmedia.uploading.MediaUploadHttpRequest''))
       (\<lambda>v3.
     thn (of_sum (subscript w v3 ''uploadUrl'')) (\<lambda>upload_url.
     thn (of_sum (subscript w register_data ''value'')) (\<lambda>v4.
     thn (of_sum (subscript w v4 ''asset'')) (\<lambda>asset_urn.
     thn (logger INFO (''Uploading image: '' @ image_path)) (\<lambda>_.
     thn (of_sum (read_bytes w image_path)) (\<lambda>image_data.
     thn (http w UploadBinary
            (PUT (py_str w upload_url)
               [(''Authorization'', ''Bearer '' @ opt_str access_token),
                (''Content-Type'', ''image/jpeg'')]
               image_data)) (\<lambda>upload_response.
     thn (if status_code upload_response \<notin> {200, 201}
          then thn (logger ERROR (''Failed to upload image: '' @ resp_text upload_response)) (\<lambda>_.
               raise (Exception (''LinkedIn image upload failed: ''
                                  @ str_int (status_code upload_response))))
          else ret ()) (\<lambda>_.
     thn (logger INFO (''Image uploaded successfully. Asset URN: '' @ py_str w asset_urn)) (\<lambda>_.
     ret asset_urn)))))))))))))))"

definition post_payload :: "string \<Rightarrow> pyval \<Rightarrow> string \<Rightarrow> pyval" where
  "post_payload txt image_asset_urn person_urn =
     PDict [
       (''author'', PStr person_urn),
       (''commentary'', PStr txt),
       (''visibility'', PStr ''PUBLIC''),
       (''distribution'', PDict [
          (''feedDistribution'', PStr ''MAIN_FEED''),
          (''targetEntities'', PList []),
          (''thirdPartyDistributionChannels'', PList [])]),
       (''content'', PDict [(''media'', PDict [
          (''title'', PStr ''Bioscope.AI''),
          (''id'', image_asset_urn)])]),
       (''lifecycleState'', PStr ''PUBLISHED''),
       (''isReshareDisabledByAuthor'', PBool False)]"

definition create_linkedin_post :: "world \<Rightarrow> string \<Rightarrow> pyval \<Rightarrow> string option \<Rightarrow> string \<Rightarrow> pyval comp" where
  "create_linkedin_post w txt image_asset_urn access_token person_urn =
     thn (logger INFO ''Creating LinkedIn post...'') (\<lambda>_.
     thn (http w Publish
            (POST LINKEDIN_POSTS_URL (json_headers access_token)
               (post_payload txt image_asset_urn person_urn))) (\<lambda>response.
     thn (if status_code response \<notin> {200, 201}
          then thn (logger ERROR (''Failed to create post: '' @ resp_text response)) (\<lambda>_.
               raise (Exception (''LinkedIn post creation failed: ''
                                  @ str_int (status_code response))))
          else ret ()) (\<lambda>_.
     thn (of_sum (resp_json response)) (\<lambda>result.
     thn (logger INFO ''Post created successfully!'') (\<lambda>_.
     ret result)))))"

subsection \<open>Notification\<close>

definition slack_payload :: "string \<Rightarrow> bool \<Rightarrow> pyval" where
  "slack_payload message success =
     (let emoji = (if success then emoji_check else emoji_cross) in
      PDict [(''text'', PStr (emoji @ '' '' @ message)),
             (''username'', PStr ''Bioscope LinkedIn Bot'')])"

definition send_slack_notification :: "world \<Rightarrow> string \<Rightarrow> bool \<Rightarrow> unit comp" where
  "send_slack_notification w message success =
     (case SLACK_WEBHOOK_URL (config w) of
        None \<Rightarrow> ret ()
      | Some url \<Rightarrow>
          if url = [] then ret ()
          else try_except
                 (thn (http w Webhook (POST url [] (slack_payload message success))) (\<lambda>_. ret ()))
                 (\<lambda>e. logger WARNING (''Failed to send Slack notification: '' @ exn_str e)))"

subsection \<open>main\<close>

text \<open>Lines 267 to 271: the date the run is for.\<close>

definition target_date :: "world \<Rightarrow> date comp" where
  "target_date w =
     (case date_opt (args w) of
        None \<Rightarrow> ret (today w)
      | Some s \<Rightarrow> if s \<noteq> [] then of_sum (fromisoformat w s) else ret (today w))"

text \<open>
  Lines 273 to 311: the weekday gate, the check of the settings, the lookup in the
  calendar and the generation of the text. It ends with the entry and its text, or earlier
  at a \<^verbatim>\<open>return\<close>, a \<^verbatim>\<open>sys.exit\<close> or an exception that nothing catches.
\<close>

definition main_generate :: "world \<Rightarrow> (pydict \<times> string) comp" where
  "main_generate w =
     thn (target_date w) (\<lambda>target_date.
     thn (logger INFO (''Running for date: '' @ isoformat target_date
                        @ '' ('' @ day_name target_date @ '')'')) (\<lambda>_.
     thn (if day_name target_date \<notin> set (map fst POSTING_DAYS) \<and> \<not> force (args w)
          then thn (logger INFO (''Today ('' @ day_name target_date
                                  @ '') is not a scheduled posting day. Exiting.'')) (\<lambda>_.
               return_main)
          else ret ()) (\<lambda>_.
     thn (if \<not> dry_run (args w)
          then (if unset (LINKEDIN_ACCESS_TOKEN (config w))
                then thn (logger ERROR ''LINKEDIN_ACCESS_TOKEN not set'') (\<lambda>_. sys_exit 1)
                else ret ())
          else ret ()) (\<lambda>_.
     thn (if unset (ANTHROPIC_API_KEY (config w))
          then thn (logger ERROR ''ANTHROPIC_API_KEY not set'') (\<lambda>_. sys_exit 1)
          else ret ()) (\<lambda>_.
     thn (load_calendar w) (\<lambda>calendar.
     thn (case get_todays_post w calendar (Some target_date) of
            None \<Rightarrow>
              thn (logger WARNING (''No post scheduled for '' @ isoformat target_date)) (\<lambda>_.
              return_main)
          | Some post \<Rightarrow>
              if post = []
              then thn (logger WARNING (''No post scheduled for '' @ isoformat target_date)) (\<lambda>_.
                   return_main)
              else ret post) (\<lambda>post.
     thn (of_sum (dict_item post ''week'')) (\<lambda>week.
     thn (of_sum (dict_item post ''post_type'')) (\<lambda>post_type.
     thn (logger INFO (''Found scheduled post: Week '' @ py_str w week @ '' - ''
                        @ py_str w post_type @ '' - ''
                        @ py_str w (dict_get post ''title'' (PStr ''Untitled'')))) (\<lambda>_.
     thn (generate_post_text w post (ANTHROPIC_API_KEY (config w))) (\<lambda>post_text.
     thn (logger INFO (replicate 50 (CHR ''=''))) (\<lambda>_.
     thn (logger INFO ''GENERATED POST TEXT:'') (\<lambda>_.
     thn (logger INFO (replicate 50 (CHR ''=''))) (\<lambda>_.
     thn (logger INFO post_text) (\<lambda>_.
     thn (logger INFO (replicate 50 (CHR ''=''))) (\<lambda>_.
     ret (post, post_text)))))))))))))))))"

text \<open>Lines 329 to 351: the body of the \<^verbatim>\<open>try\<close>.\<close>

definition main_try :: "world \<Rightarrow> pydict \<Rightarrow> string \<Rightarrow> string \<Rightarrow> unit comp" where
  "main_try w post post_text image_path =
     thn (get_person_urn w (LINKEDIN_ACCESS_TOKEN (config w))) (\<lambda>person_urn.
     thn (upload_image_to_linkedin w image_path (LINKEDIN_ACCESS_TOKEN (config w)) person_urn)
       (\<lambda>asset_urn.
     thn (create_linkedin_post w post_text asset_urn (LINKEDIN_ACCESS_TOKEN (config w)) person_urn)
       (\<lambda>result.
     thn (of_sum (dict_item post ''week'')) (\<lambda>week.
     thn (of_sum (dict_item post ''post_type'')) (\<lambda>post_type.
     thn (logger INFO (''Successfully posted: Week '' @ py_str w week @ '' '' @ py_str w post_type))
       (\<lambda>_.
     send_slack_notification w
       (''Posted Week '' @ py_str w week @ '' '' @ py_str w post_type @ '': ''
          @ py_str w (dict_get post ''title'' (PStr ''Untitled''))) True))))))"

text \<open>Lines 356 to 359: the \<^verbatim>\<open>except Exception as e\<close> clause.\<close>

definition failure_message :: "world \<Rightarrow> pyval \<Rightarrow> exn \<Rightarrow> string" where
  "failure_message w week e = ''FAILED to post Week '' @ py_str w week @ '': '' @ exn_str e"

definition main_except :: "world \<Rightarrow> pydict \<Rightarrow> exn \<Rightarrow> unit comp" where
  "main_except w post e =
     thn (logger ERROR (''Failed to post: '' @ exn_str e)) (\<lambda>_.
     thn (of_sum (dict_item post ''week'')) (\<lambda>week.
     thn (send_slack_notification w (failure_message w week e) False) (\<lambda>_.
     sys_exit 1)))"

text \<open>\<^verbatim>\<open>config.IMAGES_DIR / image_filename\<close>: a path, or a \<^verbatim>\<open>TypeError\<close> when the name is no string.\<close>

definition images_dir_div :: "world \<Rightarrow> pyval \<Rightarrow> string comp" where
  "images_dir_div w image_filename =
     (case image_filename of
        PStr s \<Rightarrow> ret (images_dir_join w s)
      | _ \<Rightarrow> raise (Raised ''TypeError'' (type_error_msg w ''/'' image_filename)))"

text \<open>Lines 313 to 359: the dry-run stop, the checks of the image, the guarded publication.\<close>

definition main_publish :: "world \<Rightarrow> pydict \<Rightarrow> string \<Rightarrow> unit comp" where
  "main_publish w post post_text =
     thn (if dry_run (args w)
          then thn (logger INFO ''DRY RUN - Not posting to LinkedIn'') (\<lambda>_. return_main)
          else ret ()) (\<lambda>_.
     thn (if \<not> truthy (dict_get post ''image_file'' PNone)
          then thn (logger ERROR ''No image_file specified in post data'') (\<lambda>_. sys_exit 1)
          else ret ()) (\<lambda>_.
     thn (images_dir_div w (dict_get post ''image_file'' PNone)) (\<lambda>image_path.
     thn (of_sum (path_exists w image_path)) (\<lambda>found.
     thn (if \<not> found
          then thn (logger ERROR (''Image not found: '' @ image_path)) (\<lambda>_. sys_exit 1)
          else ret ()) (\<lambda>_.
     try_except (main_try w post post_text image_path) (main_except w post))))))"

definition main :: "world \<Rightarrow> unit comp" where
  "main w = thn (main_generate w) (\<lambda>(post, post_text). main_publish w post post_text)"

section \<open>Observations on a run\<close>

text \<open>The calls handed to \<^verbatim>\<open>requests\<close>, in order, and all calls that leave the machine.\<close>

fun http_calls :: "event list \<Rightarrow> (api \<times> request) list" where
  "http_calls [] = []"
| "http_calls (Http a r # t) = (a, r) # http_calls t"
| "http_calls (e # t) = http_calls t"

definition network_calls :: "event list \<Rightarrow> event list" where
  "network_calls t = filter is_network t"

text \<open>The requests of the four operations on the social network.\<close>

definition userinfo_request :: "string option \<Rightarrow> request" where
  "userinfo_request access_token =
     GET USERINFO_URL [(''Authorization'', ''Bearer '' @ opt_str access_token)]"

definition register_request :: "string option \<Rightarrow> string \<Rightarrow> request" where
  "register_request access_token person_urn =
     POST LINKEDIN_UPLOAD_URL (json_headers access_token) (register_payload person_urn)"

definition publish_request :: "string \<Rightarrow> pyval \<Rightarrow> string option \<Rightarrow> string \<Rightarrow> request" where
  "publish_request txt image_asset_urn access_token person_urn =
     POST LINKEDIN_POSTS_URL (json_headers access_token)
       (post_payload txt image_asset_urn person_urn)"

section \<open>A sample world\<close>

text \<open>
  A run for Sunday 2024-06-02 in which every service answers as documented; the status of
  the upload registration is a parameter. The properties below are instantiated on it and
  on variations of it.
\<close>

definition demo_requests :: "int \<Rightarrow> request \<Rightarrow> exn + response" where
  "demo_requests register_status r =
     (case r of
        GET u h \<Rightarrow>
          Inr \<lparr>status_code = 200, resp_text = ''{...}'',
               resp_json = Inr (PDict [(''sub'', PStr ''abc123''), (''name'', PStr ''Don'')])\<rparr>
      | POST u h b \<Rightarrow>
          if u = LINKEDIN_UPLOAD_URL
          then Inr \<lparr>status_code = register_status, resp_text = ''registered'',
                    resp_json = Inr (PDict [(''value'', PDict [
                      (''uploadMechanism'', PDict [
                         (''com.linkedin.digitalmedia.uploading.MediaUploadHttpRequest'',
                          PDict [(''uploadUrl'', PStr ''https://up.example/1'')])]),
                      (''asset'', PStr ''urn:li:digitalmediaAsset:A1'')])])\<rparr>
          else Inr \<lparr>status_code = 201, resp_text = ''{...}'',
                    resp_json = Inr (PDict [(''id'', PStr ''urn:li:share:1'')])\<rparr>
      | PUT u h d \<Rightarrow>
          Inr \<lparr>status_code = 201, resp_text = [],
               resp_json = Inl (Raised ''JSONDecodeError'' ''Expecting value'')\<rparr>)"

definition demo_entry :: "int \<Rightarrow> string \<Rightarrow> pydict" where
  "demo_entry week_no d =
     [(''date'', PStr d), (''post_type'', PStr ''gene''), (''week'', PInt week_no),
      (''content_data'', PDict []), (''image_file'', PStr ''w3.jpg'')]"

definition demo_calendar :: "pydict list" where
  "demo_calendar =
     [demo_entry 2 ''2024-05-30'', demo_entry 3 ''2024-06-02'', demo_entry 4 ''2024-06-02'']"

definition demo_world :: world where
  "demo_world = \<lparr>
     args = \<lparr>dry_run = False, date_opt = Some ''2024-06-02'', force = False\<rparr>,
     config = \<lparr>ANTHROPIC_API_KEY = Some ''sk-key'', LINKEDIN_ACCESS_TOKEN = Some ''tok'',
                SLACK_WEBHOOK_URL = Some ''https://hooks.example/T1''\<rparr>,
     today = \<lparr>year = 2024, month = 6, day = 3\<rparr>,
     fromisoformat = (\<lambda>s. if s = ''2024-06-02'' then Inr \<lparr>year = 2024, month = 6, day = 2\<rparr>
                          else Inl (Raised ''ValueError'' ''Invalid isoformat string'')),
     calendar_json = Inr demo_calendar,
     system_prompt_txt = Inr ''You write posts.'',
     images_dir_join = (\<lambda>s. ''content/images/'' @ s),
     path_exists = (\<lambda>p. Inr (p = ''content/images/w3.jpg'')),
     read_bytes = (\<lambda>p. Inr ''JPEG''),
     messages_create = (\<lambda>k m n s c. Inr [''Hello'']),
     requests = demo_requests 200,
     json_dumps = (\<lambda>v. ''{}''),
     py_repr = (\<lambda>v. ''[...]''),
     type_error_msg = (\<lambda>opr v. ''unsupported operand'')\<rparr>"

subsection \<open>Variations\<close>

text \<open>
  Other answers of the user-info endpoint (a server error, a body that is no JSON, a
  success status other than 200, an object without \<^verbatim>\<open>sub\<close>) and a transport that
  cannot connect.
\<close>

definition failing_userinfo :: "request \<Rightarrow> exn + response" where
  "failing_userinfo r =
     Inr \<lparr>status_code = 500, resp_text = ''boom'',
          resp_json = Inl (Raised ''JSONDecodeError'' ''Expecting value'')\<rparr>"

definition html_userinfo :: "request \<Rightarrow> exn + response" where
  "html_userinfo r =
     Inr \<lparr>status_code = 200, resp_text = ''<html>'',
          resp_json = Inl (Raised ''JSONDecodeError'' ''Expecting value'')\<rparr>"

definition created_userinfo :: "request \<Rightarrow> exn + response" where
  "created_userinfo r =
     Inr \<lparr>status_code = 201, resp_text = ''{...}'',
          resp_json = Inr (PDict [(''sub'', PStr ''abc123'')])\<rparr>"

definition anonymous_userinfo :: "request \<Rightarrow> exn + response" where
  "anonymous_userinfo r =
     Inr \<lparr>status_code = 200, resp_text = ''{}'', resp_json = Inr (PDict [])\<rparr>"

definition unreachable :: "request \<Rightarrow> exn + response" where
  "unreachable r = Inl (Raised ''ConnectionError'' ''connection refused'')"

text \<open>A file system without the image, and a calendar whose entry names its image by a number.\<close>

definition image_missing :: "string \<Rightarrow> exn + bool" where
  "image_missing p = Inr False"

definition numbered_image_calendar :: "pydict list" where
  "numbered_image_calendar =
     [[(''date'', PStr ''2024-06-02''), (''post_type'', PStr ''gene''), (''week'', PInt 3),
       (''content_data'', PDict []), (''image_file'', PInt 7)]]"

text \<open>A text longer than \<^verbatim>\<open>MAX_POST_LENGTH\<close>.\<close>

definition long_text :: string where
  "long_text = replicate 3001 (CHR ''x'')"

section \<open>Basic facts\<close>

lemma thn_Ok [simp]: "thn (t, Ok a) f = (case f a of (t', r) \<Rightarrow> (t @ t', r))"
  by (simp add: thn_def split: prod.splits)

lemma thn_Return [simp]: "thn (t, Return) f = (t, Return)"
  by (simp add: thn_def)

lemma thn_Raise [simp]: "thn (t, Raise e) f = (t, Raise e)"
  by (simp add: thn_def)

lemma thn_SysExit [simp]: "thn (t, SysExit n) f = (t, SysExit n)"
  by (simp add: thn_def)

lemma fst_thn: "fst (thn m f) = fst m @ (case snd m of Ok a \<Rightarrow> fst (f a) | _ \<Rightarrow> [])"
  by (simp add: thn_def split: result.splits)

lemma snd_thn:
  "snd (thn m f) = (case snd m of Ok a \<Rightarrow> snd (f a) | Return \<Rightarrow> Return
                     | Raise e \<Rightarrow> Raise e | SysExit n \<Rightarrow> SysExit n)"
  by (simp add: thn_def split: result.splits)

lemma try_except_Raise [simp]: "try_except (t, Raise e) h = (case h e of (t', r) \<Rightarrow> (t @ t', r))"
  by (simp add: try_except_def split: prod.splits)

lemma try_except_Ok [simp]: "try_except (t, Ok a) h = (t, Ok a)"
  by (simp add: try_except_def)

lemma try_except_Return [simp]: "try_except (t, Return) h = (t, Return)"
  by (simp add: try_except_def)

lemma try_except_SysExit [simp]: "try_except (t, SysExit n) h = (t, SysExit n)"
  by (simp add: try_except_def)

lemmas atoms = ret_def return_main_def raise_def sys_exit_def logger_def of_sum_def http_def llm_def

lemma http_calls_append [simp]: "http_calls (s @ t) = http_calls s @ http_calls t"
  by (induction s rule: http_calls.induct) auto

lemma isoformat_demo: "isoformat \<lparr>year = 2024, month = 6, day = 2\<rparr> = ''2024-06-02''"
  by (simp add: isoformat_def zfill_def str_nat.simps digit_char_def)

lemma day_name_demo: "day_name \<lparr>year = 2024, month = 6, day = 2\<rparr> = ''sunday''"
  by (simp add: day_name_def weekday_def toordinal_def days_before_year_def
        days_before_month_def is_leap_def)

section \<open>The calendar lookup\<close>

lemma find_post_None:
  "find_post s cal = None \<longleftrightarrow> (\<forall>p \<in> set cal. map_of p ''date'' \<noteq> Some (PStr s))"
  by (induction cal) (auto simp: dict_get_def split: option.splits)

lemma find_post_Some:
  "find_post s cal = Some p \<longleftrightarrow>
     (\<exists>i < length cal. cal ! i = p \<and> map_of p ''date'' = Some (PStr s)
        \<and> (\<forall>j < i. map_of (cal ! j) ''date'' \<noteq> Some (PStr s)))"
proof (induction cal)
  case Nil
  then show ?case by simp
next
  case (Cons q cal)
  show ?case
  proof (cases "map_of q ''date'' = Some (PStr s)")
    case True
    have "(\<exists>i < length (q # cal). (q # cal) ! i = p \<and> map_of p ''date'' = Some (PStr s)
        \<and> (\<forall>j < i. map_of ((q # cal) ! j) ''date'' \<noteq> Some (PStr s))) \<longleftrightarrow> q = p"
    proof
      assume "\<exists>i < length (q # cal). (q # cal) ! i = p \<and> map_of p ''date'' = Some (PStr s)
        \<and> (\<forall>j < i. map_of ((q # cal) ! j) ''date'' \<noteq> Some (PStr s))"
      then obtain i where i: "(q # cal) ! i = p"
        "\<forall>j < i. map_of ((q # cal) ! j) ''date'' \<noteq> Some (PStr s)" by blast
      have "i = 0"
      proof (rule ccontr)
        assume "i \<noteq> 0"
        then have "0 < i" by simp
        with i(2) have "map_of ((q # cal) ! 0) ''date'' \<noteq> Some (PStr s)" by blast
        with True show False by simp
      qed
      with i(1) show "q = p" by simp
    next
      assume "q = p"
      with True show "\<exists>i < length (q # cal). (q # cal) ! i = p \<and> map_of p ''date'' = Some (PStr s)
        \<and> (\<forall>j < i. map_of ((q # cal) ! j) ''date'' \<noteq> Some (PStr s))"
        by (intro exI[of _ 0]) simp
    qed
    with True show ?thesis by (simp add: dict_get_def)
  next
    case False
    have "(\<exists>i < length (q # cal). (q # cal) ! i = p \<and> map_of p ''date'' = Some (PStr s)
        \<and> (\<forall>j < i. map_of ((q # cal) ! j) ''date'' \<noteq> Some (PStr s))) \<longleftrightarrow>
         (\<exists>i < length cal. cal ! i = p \<and> map_of p ''date'' = Some (PStr s)
        \<and> (\<forall>j < i. map_of (cal ! j) ''date'' \<noteq> Some (PStr s)))" (is "?L \<longleftrightarrow> ?R")
    proof
      assume ?L
      then obtain i where i: "i < length (q # cal)" "(q # cal) ! i = p"
        "map_of p ''date'' = Some (PStr s)"
        "\<forall>j < i. map_of ((q # cal) ! j) ''date'' \<noteq> Some (PStr s)" by blast
      from i(2,3) False have "i \<noteq> 0" by (cases i) auto
      then obtain k where k: "i = Suc k" by (cases i) auto
      have "\<forall>j < k. map_of (cal ! j) ''date'' \<noteq> Some (PStr s)"
      proof (intro allI impI)
        fix j assume "j < k"
        then have "Suc j < i" using k by simp
        with i(4) have "map_of ((q # cal) ! Suc j) ''date'' \<noteq> Some (PStr s)" by blast
        then show "map_of (cal ! j) ''date'' \<noteq> Some (PStr s)" by simp
      qed
      with i k show ?R by (intro exI[of _ k]) simp
    next
      assume ?R
      then obtain k where k: "k < length cal" "cal ! k = p" "map_of p ''date'' = Some (PStr s)"
        "\<forall>j < k. map_of (cal ! j) ''date'' \<noteq> Some (PStr s)" by blast
      have "\<forall>j < Suc k. map_of ((q # cal) ! j) ''date'' \<noteq> Some (PStr s)"
      proof (intro allI impI)
        fix j assume j: "j < Suc k"
        show "map_of ((q # cal) ! j) ''date'' \<noteq> Some (PStr s)"
        proof (cases j)
          case 0
          with False show ?thesis by simp
        next
          case (Suc j')
          with j k(4) show ?thesis by simp
        qed
      qed
      with k show ?L by (intro exI[of _ "Suc k"]) simp
    qed
    with False Cons.IH show ?thesis by (simp add: dict_get_def split: option.splits)
  qed
qed

text \<open>
  Claim C5. For every list of calendar entries and every target date, the lookup returns
  the first entry in list order whose \<^verbatim>\<open>date\<close> field is the ISO string of the target date,
  and \<^verbatim>\<open>None\<close> exactly when no entry has it. The result is an option: there is no branch
  of the lookup that raises. Without a target date the lookup is the one for today.
\<close>

theorem get_todays_post_first_match:
  "(get_todays_post w calendar (Some d) = None \<longleftrightarrow>
      (\<forall>p \<in> set calendar. map_of p ''date'' \<noteq> Some (PStr (isoformat d))))
   \<and> (\<forall>p. get_todays_post w calendar (Some d) = Some p \<longleftrightarrow>
        (\<exists>i < length calendar. calendar ! i = p
           \<and> map_of p ''date'' = Some (PStr (isoformat d))
           \<and> (\<forall>j < i. map_of (calendar ! j) ''date'' \<noteq> Some (PStr (isoformat d)))))
   \<and> get_todays_post w calendar None = get_todays_post w calendar (Some (today w))"
  by (simp add: get_todays_post_def find_post_None find_post_Some)

theorem get_todays_post_first_match_witness:
  "get_todays_post demo_world demo_calendar (Some \<lparr>year = 2024, month = 6, day = 2\<rparr>)
     = Some (demo_entry 3 ''2024-06-02'')
   \<and> (\<exists>i < length demo_calendar. demo_calendar ! i = demo_entry 3 ''2024-06-02''
         \<and> map_of (demo_entry 3 ''2024-06-02'') ''date'' = Some (PStr ''2024-06-02'')
         \<and> (\<forall>j < i. map_of (demo_calendar ! j) ''date'' \<noteq> Some (PStr ''2024-06-02'')))
   \<and> get_todays_post demo_world demo_calendar None = None
   \<and> \<not> (\<exists>p. p \<in> set demo_calendar
           \<and> map_of p ''date'' = Some (PStr (isoformat (today demo_world))))"
proof -
  have a: "get_todays_post demo_world demo_calendar (Some \<lparr>year = 2024, month = 6, day = 2\<rparr>)
             = Some (demo_entry 3 ''2024-06-02'')"
    by (simp add: get_todays_post_def isoformat_demo demo_calendar_def demo_entry_def dict_get_def)
  have b: "get_todays_post demo_world demo_calendar (Some (today demo_world)) = None"
    by (simp add: get_todays_post_def demo_world_def isoformat_def zfill_def str_nat.simps
          digit_char_def demo_calendar_def demo_entry_def dict_get_def)
  from a b
    get_todays_post_first_match
      [of demo_world demo_calendar "\<lparr>year = 2024, month = 6, day = 2\<rparr>"]
    get_todays_post_first_match [of demo_world demo_calendar "today demo_world"]
  show ?thesis
    by (simp add: isoformat_demo)
qed

lemma demo_world_sel:
  "args demo_world = \<lparr>dry_run = False, date_opt = Some ''2024-06-02'', force = False\<rparr>"
  "config demo_world = \<lparr>ANTHROPIC_API_KEY = Some ''sk-key'', LINKEDIN_ACCESS_TOKEN = Some ''tok'',
                         SLACK_WEBHOOK_URL = Some ''https://hooks.example/T1''\<rparr>"
  "today demo_world = \<lparr>year = 2024, month = 6, day = 3\<rparr>"
  "fromisoformat demo_world ''2024-06-02'' = Inr \<lparr>year = 2024, month = 6, day = 2\<rparr>"
  "calendar_json demo_world = Inr demo_calendar"
  "system_prompt_txt demo_world = Inr ''You write posts.''"
  "images_dir_join demo_world s = ''content/images/'' @ s"
  "path_exists demo_world p = Inr (p = ''content/images/w3.jpg'')"
  "read_bytes demo_world p = Inr ''JPEG''"
  "messages_create demo_world k m n sy c = Inr [''Hello'']"
  "requests demo_world = demo_requests 200"
  by (simp_all add: demo_world_def)

section \<open>Identity resolution\<close>

lemma get_person_urn_transport:
  "requests w (userinfo_request tok) = Inl e \<Longrightarrow>
   get_person_urn w tok = ([Http UserInfo (userinfo_request tok)], Raise e)"
  by (simp add: get_person_urn_def userinfo_request_def atoms Let_def)

lemma get_person_urn_not_200:
  "requests w (userinfo_request tok) = Inr r \<Longrightarrow> status_code r \<noteq> 200 \<Longrightarrow>
   get_person_urn w tok =
     ([Http UserInfo (userinfo_request tok), Log ERROR (''Failed to get user info: '' @ resp_text r)],
      Raise (Exception (''Failed to get LinkedIn user info: '' @ str_int (status_code r))))"
  by (simp add: get_person_urn_def userinfo_request_def atoms Let_def)

lemma get_person_urn_bad_json:
  "requests w (userinfo_request tok) = Inr r \<Longrightarrow> status_code r = 200 \<Longrightarrow>
   resp_json r = Inl e \<Longrightarrow>
   get_person_urn w tok = ([Http UserInfo (userinfo_request tok)], Raise e)"
  by (simp add: get_person_urn_def userinfo_request_def atoms Let_def)

lemma get_person_urn_object:
  "requests w (userinfo_request tok) = Inr r \<Longrightarrow> status_code r = 200 \<Longrightarrow>
   resp_json r = Inr (PDict d) \<Longrightarrow>
   get_person_urn w tok =
     ([Http UserInfo (userinfo_request tok),
       Log INFO (''Authenticated as: '' @ py_str w (dict_get d ''name'' (PStr ''Unknown'')))],
      Ok (''urn:li:person:'' @ py_str w (dict_get d ''sub'' PNone)))"
  by (simp add: get_person_urn_def userinfo_request_def atoms py_get_def Let_def)

lemma http_calls_get_person_urn:
  "http_calls (fst (get_person_urn w tok)) = [(UserInfo, userinfo_request tok)]"
  by (simp add: get_person_urn_def userinfo_request_def atoms py_get_def Let_def
        split: sum.splits pyval.splits)

text \<open>
  Claim C7, as amended. For every access token, identity resolution hands exactly one
  request to the transport, a GET of the user-info endpoint with the token as bearer
  credential. On a status other than 200 it logs the body of the response as an error and
  raises an exception whose message carries the status code, and nothing of the body. On
  status 200 with a body that decodes to a JSON object it returns \<^verbatim>\<open>urn:li:person:\<close>
  followed by the \<^verbatim>\<open>str\<close> of the field \<^verbatim>\<open>sub\<close>, so the identifier itself when the field
  is a string.
\<close>

theorem get_person_urn_contract:
  "http_calls (fst (get_person_urn w access_token))
     = [(UserInfo, GET USERINFO_URL [(''Authorization'', ''Bearer '' @ opt_str access_token)])]
   \<and> (\<forall>r. requests w (userinfo_request access_token) = Inr r \<and> status_code r \<noteq> 200 \<longrightarrow>
        get_person_urn w access_token =
          ([Http UserInfo (userinfo_request access_token),
            Log ERROR (''Failed to get user info: '' @ resp_text r)],
           Raise (Exception (''Failed to get LinkedIn user info: '' @ str_int (status_code r)))))
   \<and> (\<forall>r d. requests w (userinfo_request access_token) = Inr r \<and> status_code r = 200
          \<and> resp_json r = Inr (PDict d) \<longrightarrow>
        snd (get_person_urn w access_token)
          = Ok (''urn:li:person:'' @ py_str w (dict_get d ''sub'' PNone))
        \<and> (\<forall>ident. map_of d ''sub'' = Some (PStr ident) \<longrightarrow>
             snd (get_person_urn w access_token) = Ok (''urn:li:person:'' @ ident)))"
proof -
  have "http_calls (fst (get_person_urn w access_token))
          = [(UserInfo, GET USERINFO_URL [(''Authorization'', ''Bearer '' @ opt_str access_token)])]"
    by (simp add: http_calls_get_person_urn userinfo_request_def)
  then show ?thesis
    by (auto simp: get_person_urn_not_200 get_person_urn_object dict_get_def)
qed

theorem get_person_urn_contract_witness:
  "get_person_urn (demo_world\<lparr>requests := failing_userinfo\<rparr>) (Some ''tok'')
     = ([Http UserInfo (userinfo_request (Some ''tok'')), Log ERROR ''Failed to get user info: boom''],
        Raise (Exception ''Failed to get LinkedIn user info: 500''))
   \<and> snd (get_person_urn demo_world (Some ''tok'')) = Ok ''urn:li:person:abc123''"
  using get_person_urn_contract [of "demo_world\<lparr>requests := failing_userinfo\<rparr>" "Some ''tok''"]
    get_person_urn_contract [of demo_world "Some ''tok''"]
  by (simp add: demo_world_sel failing_userinfo_def demo_requests_def userinfo_request_def
        str_int_def str_nat.simps digit_char_def dict_get_def)

theorem get_person_urn_error_omits_body:
  "requests (demo_world\<lparr>requests := failing_userinfo\<rparr>) (userinfo_request (Some ''tok''))
     = Inr \<lparr>status_code = 500, resp_text = ''boom'',
            resp_json = Inl (Raised ''JSONDecodeError'' ''Expecting value'')\<rparr>
   \<and> snd (get_person_urn (demo_world\<lparr>requests := failing_userinfo\<rparr>) (Some ''tok''))
     = Raise (Exception ''Failed to get LinkedIn user info: 500'')
   \<and> \<not> sublist ''boom'' (exn_str (Exception ''Failed to get LinkedIn user info: 500''))
   \<and> snd (get_person_urn (demo_world\<lparr>requests := created_userinfo\<rparr>) (Some ''tok''))
     = Raise (Exception ''Failed to get LinkedIn user info: 201'')
   \<and> snd (get_person_urn (demo_world\<lparr>requests := html_userinfo\<rparr>) (Some ''tok''))
     = Raise (Raised ''JSONDecodeError'' ''Expecting value'')"
  by (simp add: get_person_urn_def failing_userinfo_def created_userinfo_def html_userinfo_def
        userinfo_request_def atoms Let_def str_int_def str_nat.simps digit_char_def
        sublist_Cons_right)

text \<open>
  Claim C10, as amended. For every user-info response with status 200 whose body decodes
  to a JSON object, identity resolution returns a string that starts with
  \<^verbatim>\<open>urn:li:person:\<close>; when the object has no field \<^verbatim>\<open>sub\<close> the string is
  \<^verbatim>\<open>urn:li:person:None\<close>, and no exception is raised.
\<close>

theorem get_person_urn_missing_sub:
  "requests w (userinfo_request access_token) = Inr r \<and> status_code r = 200
     \<and> resp_json r = Inr (PDict d) \<longrightarrow>
   (\<exists>urn. snd (get_person_urn w access_token) = Ok urn \<and> prefix ''urn:li:person:'' urn)
   \<and> (map_of d ''sub'' = None \<longrightarrow>
        snd (get_person_urn w access_token) = Ok ''urn:li:person:None'')"
  by (auto simp: get_person_urn_object dict_get_def prefix_def)

theorem get_person_urn_missing_sub_witness:
  "snd (get_person_urn (demo_world\<lparr>requests := anonymous_userinfo\<rparr>) (Some ''tok''))
     = Ok ''urn:li:person:None''
   \<and> prefix ''urn:li:person:'' ''urn:li:person:None''"
  using get_person_urn_missing_sub
    [of "demo_world\<lparr>requests := anonymous_userinfo\<rparr>" "Some ''tok''"
        "\<lparr>status_code = 200, resp_text = ''{}'', resp_json = Inr (PDict [])\<rparr>" "[]"]
  by (simp add: anonymous_userinfo_def)

theorem get_person_urn_undecodable_body:
  "status_code \<lparr>status_code = 200, resp_text = ''<html>'',
       resp_json = Inl (Raised ''JSONDecodeError'' ''Expecting value'')\<rparr> = 200
   \<and> requests (demo_world\<lparr>requests := html_userinfo\<rparr>) (userinfo_request (Some ''tok''))
     = Inr \<lparr>status_code = 200, resp_text = ''<html>'',
            resp_json = Inl (Raised ''JSONDecodeError'' ''Expecting value'')\<rparr>
   \<and> snd (get_person_urn (demo_world\<lparr>requests := html_userinfo\<rparr>) (Some ''tok''))
     = Raise (Raised ''JSONDecodeError'' ''Expecting value'')"
  by (simp add: get_person_urn_def html_userinfo_def userinfo_request_def atoms Let_def)

section \<open>Notification\<close>

lemma send_slack_unset:
  "unset (SLACK_WEBHOOK_URL (config w)) \<Longrightarrow> send_slack_notification w m s = ([], Ok ())"
  by (auto simp: send_slack_notification_def atoms split: option.splits)

lemma send_slack_set:
  "SLACK_WEBHOOK_URL (config w) = Some url \<Longrightarrow> url \<noteq> [] \<Longrightarrow>
   send_slack_notification w m s =
     (Http Webhook (POST url [] (slack_payload m s))
        # (case requests w (POST url [] (slack_payload m s)) of
             Inl e \<Rightarrow> [Log WARNING (''Failed to send Slack notification: '' @ exn_str e)]
           | Inr r \<Rightarrow> []),
      Ok ())"
  by (auto simp: send_slack_notification_def atoms split: option.splits sum.splits)

lemma snd_send_slack: "snd (send_slack_notification w m s) = Ok ()"
  by (auto simp: send_slack_notification_def atoms split: option.splits sum.splits)

text \<open>
  Claim C8. For every message and status flag the notification ends with a value: it
  never raises to its caller, nor exits. Without a webhook URL (unset or empty) it does
  nothing: no call, no log record. When the transport raises, the call is followed by one
  warning in the log and the exception goes no further.
\<close>

theorem send_slack_notification_never_raises:
  "snd (send_slack_notification w message success) = Ok ()
   \<and> (unset (SLACK_WEBHOOK_URL (config w)) \<longrightarrow>
        send_slack_notification w message success = ([], Ok ()))
   \<and> (\<forall>url e. SLACK_WEBHOOK_URL (config w) = Some url \<and> url \<noteq> []
          \<and> requests w (POST url [] (slack_payload message success)) = Inl e \<longrightarrow>
        send_slack_notification w message success =
          ([Http Webhook (POST url [] (slack_payload message success)),
            Log WARNING (''Failed to send Slack notification: '' @ exn_str e)], Ok ()))"
  by (auto simp: snd_send_slack send_slack_unset send_slack_set)

theorem send_slack_notification_never_raises_witness:
  "send_slack_notification
     (demo_world\<lparr>config := (config demo_world)\<lparr>SLACK_WEBHOOK_URL := None\<rparr>\<rparr>) ''done'' True
     = ([], Ok ())
   \<and> send_slack_notification (demo_world\<lparr>requests := unreachable\<rparr>) ''done'' False
     = ([Http Webhook (POST ''https://hooks.example/T1'' [] (slack_payload ''done'' False)),
         Log WARNING ''Failed to send Slack notification: connection refused''], Ok ())"
  using send_slack_notification_never_raises
      [of "demo_world\<lparr>config := (config demo_world)\<lparr>SLACK_WEBHOOK_URL := None\<rparr>\<rparr>" "''done''" True]
    send_slack_notification_never_raises
      [of "demo_world\<lparr>requests := unreachable\<rparr>" "''done''" False]
  by (simp add: demo_world_sel unreachable_def)

section \<open>Traces of the parts of a run\<close>

lemma trace_thn:
  "list_all P (fst m) \<Longrightarrow> (\<And>a. snd m = Ok a \<Longrightarrow> list_all P (fst (f a))) \<Longrightarrow>
   list_all P (fst (thn m f))"
  by (auto simp: fst_thn split: result.splits)

lemma trace_try:
  "list_all P (fst m) \<Longrightarrow> (\<And>e. snd m = Raise e \<Longrightarrow> list_all P (fst (h e))) \<Longrightarrow>
   list_all P (fst (try_except m h))"
  by (cases m) (auto simp: try_except_def split: result.splits)

lemma trace_if:
  "(c \<Longrightarrow> list_all P (fst a)) \<Longrightarrow> (\<not> c \<Longrightarrow> list_all P (fst b)) \<Longrightarrow>
   list_all P (fst (if c then a else b))"
  by simp

lemma trace_atoms [simp]:
  "fst (ret a) = []" "fst return_main = []" "fst (raise e) = []" "fst (sys_exit n) = []"
  "fst (of_sum x) = []"
  "fst (logger l s) = [Log l s]"
  "fst (http w ap r) = [Http ap r]"
  "fst (llm w k mo nn sy c) = [LLM k mo nn sy c]"
  by (auto simp: atoms split: sum.splits)

lemma result_atoms [simp]:
  "snd (ret a) = Ok a" "snd return_main = Return" "snd (raise e) = Raise e"
  "snd (sys_exit n) = SysExit n" "snd (logger l s) = Ok ()"
  by (auto simp: atoms)

lemma no_http_calls: "list_all (\<lambda>e. \<not> is_http e) t \<Longrightarrow> http_calls t = []"
  by (induction t rule: http_calls.induct) auto

lemma trace_generate_post_text:
  "(\<And>l s. P (Log l s)) \<Longrightarrow> (\<And>k mo n sy c. P (LLM k mo n sy c)) \<Longrightarrow>
   list_all P (fst (generate_post_text w post key))"
  unfolding generate_post_text_def load_system_prompt_def
  by (intro trace_thn trace_if) (simp_all split: list.splits)

lemma fst_target_date [simp]: "fst (target_date w) = []"
  by (simp add: target_date_def split: option.splits)

lemma trace_main_generate:
  "(\<And>l s. P (Log l s)) \<Longrightarrow> (\<And>k mo n sy c. P (LLM k mo n sy c)) \<Longrightarrow>
   list_all P (fst (main_generate w))"
  unfolding main_generate_def load_calendar_def
  by (intro trace_thn trace_if trace_generate_post_text)
     (simp_all add: fst_thn split: list.splits option.splits)

lemma http_calls_main_generate [simp]: "http_calls (fst (main_generate w)) = []"
  by (rule no_http_calls) (rule trace_main_generate, simp_all)

lemma target_date_Ok: "snd (target_date w) = Ok d \<Longrightarrow> target_date w = ([], Ok d)"
  by (metis fst_target_date prod.collapse)

section \<open>The gates before the calendar\<close>

lemma main_generate_unscheduled:
  "snd (target_date w) = Ok d \<Longrightarrow> day_name d \<notin> set (map fst POSTING_DAYS) \<Longrightarrow>
   \<not> force (args w) \<Longrightarrow>
   main_generate w =
     ([Log INFO (''Running for date: '' @ isoformat d @ '' ('' @ day_name d @ '')''),
       Log INFO (''Today ('' @ day_name d @ '') is not a scheduled posting day. Exiting.'')],
      Return)"
  by (simp add: main_generate_def target_date_Ok atoms)

lemma main_generate_no_token:
  "snd (target_date w) = Ok d \<Longrightarrow> day_name d \<in> set (map fst POSTING_DAYS) \<or> force (args w) \<Longrightarrow>
   \<not> dry_run (args w) \<Longrightarrow> unset (LINKEDIN_ACCESS_TOKEN (config w)) \<Longrightarrow>
   main_generate w =
     ([Log INFO (''Running for date: '' @ isoformat d @ '' ('' @ day_name d @ '')''),
       Log ERROR ''LINKEDIN_ACCESS_TOKEN not set''],
      SysExit 1)"
  by (auto simp: main_generate_def target_date_Ok atoms)

lemma main_generate_no_key:
  "snd (target_date w) = Ok d \<Longrightarrow> day_name d \<in> set (map fst POSTING_DAYS) \<or> force (args w) \<Longrightarrow>
   dry_run (args w) \<or> \<not> unset (LINKEDIN_ACCESS_TOKEN (config w)) \<Longrightarrow>
   unset (ANTHROPIC_API_KEY (config w)) \<Longrightarrow>
   main_generate w =
     ([Log INFO (''Running for date: '' @ isoformat d @ '' ('' @ day_name d @ '')''),
       Log ERROR ''ANTHROPIC_API_KEY not set''],
      SysExit 1)"
  by (auto simp: main_generate_def target_date_Ok atoms)

lemma main_Return: "main_generate w = (t, Return) \<Longrightarrow> main w = (t, Return)"
  by (simp add: main_def)

lemma main_SysExit: "main_generate w = (t, SysExit n) \<Longrightarrow> main w = (t, SysExit n)"
  by (simp add: main_def)

lemma main_Raise: "main_generate w = (t, Raise e) \<Longrightarrow> main w = (t, Raise e)"
  by (simp add: main_def)

lemma main_Ok:
  "main_generate w = (t, Ok (post, post_text)) \<Longrightarrow>
   main w = (t @ fst (main_publish w post post_text), snd (main_publish w post post_text))"
  by (simp add: main_def split: prod.splits)

text \<open>
  Claim C3. For every target date whose weekday name is not a key of \<^verbatim>\<open>POSTING_DAYS\<close>,
  when \<^verbatim>\<open>--force\<close> is not given, the run makes no network call (none to the language
  model, none through \<^verbatim>\<open>requests\<close>), \<^verbatim>\<open>main\<close> returns and the exit status is 0.
\<close>

theorem unscheduled_day_is_noop:
  "snd (target_date w) = Ok d \<and> day_name d \<notin> set (map fst POSTING_DAYS) \<and> \<not> force (args w)
   \<longrightarrow> network_calls (fst (main w)) = [] \<and> snd (main w) = Return
       \<and> exit_status (snd (main w)) = 0"
proof (intro impI)
  assume a: "snd (target_date w) = Ok d \<and> day_name d \<notin> set (map fst POSTING_DAYS)
    \<and> \<not> force (args w)"
  then have "main w =
     ([Log INFO (''Running for date: '' @ isoformat d @ '' ('' @ day_name d @ '')''),
       Log INFO (''Today ('' @ day_name d @ '') is not a scheduled posting day. Exiting.'')],
      Return)"
    by (intro main_Return main_generate_unscheduled) simp_all
  then show "network_calls (fst (main w)) = [] \<and> snd (main w) = Return
       \<and> exit_status (snd (main w)) = 0"
    by (simp add: network_calls_def)
qed

lemma day_name_monday: "day_name \<lparr>year = 2024, month = 6, day = 3\<rparr> = ''monday''"
  by (simp add: day_name_def weekday_def toordinal_def days_before_year_def
        days_before_month_def is_leap_def)

theorem unscheduled_day_is_noop_witness:
  "snd (target_date (demo_world\<lparr>args := \<lparr>dry_run = False, date_opt = None, force = False\<rparr>\<rparr>))
     = Ok \<lparr>year = 2024, month = 6, day = 3\<rparr>
   \<and> day_name \<lparr>year = 2024, month = 6, day = 3\<rparr> = ''monday''
   \<and> ''monday'' \<notin> set (map fst POSTING_DAYS)
   \<and> network_calls
       (fst (main (demo_world\<lparr>args := \<lparr>dry_run = False, date_opt = None, force = False\<rparr>\<rparr>))) = []
   \<and> exit_status
       (snd (main (demo_world\<lparr>args := \<lparr>dry_run = False, date_opt = None, force = False\<rparr>\<rparr>))) = 0"
  using unscheduled_day_is_noop
    [of "demo_world\<lparr>args := \<lparr>dry_run = False, date_opt = None, force = False\<rparr>\<rparr>"
        "\<lparr>year = 2024, month = 6, day = 3\<rparr>"]
  by (simp add: target_date_def demo_world_sel day_name_monday POSTING_DAYS_def atoms)


lemma py_str_config [simp]: "py_str (w\<lparr>config := c\<rparr>) v = py_str w v"
  by (cases v) simp_all

lemma target_date_config [simp]: "target_date (w\<lparr>config := c\<rparr>) = target_date w"
  by (simp add: target_date_def split: option.splits)

lemma get_todays_post_config [simp]:
  "get_todays_post (w\<lparr>config := c\<rparr>) calendar d = get_todays_post w calendar d"
  by (simp add: get_todays_post_def split: option.splits)

lemma generate_post_text_config [simp]:
  "generate_post_text (w\<lparr>config := c\<rparr>) post key = generate_post_text w post key"
  by (simp add: generate_post_text_def load_system_prompt_def user_prompt_def llm_def)

lemma main_generate_token_unused:
  "dry_run (args w) \<Longrightarrow>
   main_generate (w\<lparr>config := (config w)\<lparr>LINKEDIN_ACCESS_TOKEN := tok\<rparr>\<rparr>) = main_generate w"
  by (simp add: main_generate_def load_calendar_def)

lemma main_publish_dry:
  "dry_run (args w) \<Longrightarrow>
   main_publish w post post_text = ([Log INFO ''DRY RUN - Not posting to LinkedIn''], Return)"
  by (simp add: main_publish_def atoms)

text \<open>
  Claim C6. On a scheduled or forced day, when the language-model key is absent, or the
  access token is absent in a run that is not a dry run, the process exits with status 1
  and its trace holds no network call. In a dry run the access token is not required: the
  whole run is the same whatever the token is, absent or not.
\<close>

theorem missing_credentials_exit_before_network:
  "(snd (target_date w) = Ok d
      \<and> (day_name d \<in> set (map fst POSTING_DAYS) \<or> force (args w))
      \<and> (unset (ANTHROPIC_API_KEY (config w))
           \<or> (\<not> dry_run (args w) \<and> unset (LINKEDIN_ACCESS_TOKEN (config w))))
    \<longrightarrow> snd (main w) = SysExit 1 \<and> exit_status (snd (main w)) \<noteq> 0
        \<and> network_calls (fst (main w)) = [])
   \<and> (dry_run (args w) \<longrightarrow>
        main (w\<lparr>config := (config w)\<lparr>LINKEDIN_ACCESS_TOKEN := tok\<rparr>\<rparr>) = main w)"
proof (intro conjI impI)
  assume a: "snd (target_date w) = Ok d
      \<and> (day_name d \<in> set (map fst POSTING_DAYS) \<or> force (args w))
      \<and> (unset (ANTHROPIC_API_KEY (config w))
           \<or> (\<not> dry_run (args w) \<and> unset (LINKEDIN_ACCESS_TOKEN (config w))))"
  have "\<exists>m. main w =
     ([Log INFO (''Running for date: '' @ isoformat d @ '' ('' @ day_name d @ '')''),
       Log ERROR m], SysExit 1)"
  proof (cases "\<not> dry_run (args w) \<and> unset (LINKEDIN_ACCESS_TOKEN (config w))")
    case True
    with a have "main_generate w =
     ([Log INFO (''Running for date: '' @ isoformat d @ '' ('' @ day_name d @ '')''),
       Log ERROR ''LINKEDIN_ACCESS_TOKEN not set''], SysExit 1)"
      by (intro main_generate_no_token) auto
    then show ?thesis by (blast intro: main_SysExit)
  next
    case False
    with a have "main_generate w =
     ([Log INFO (''Running for date: '' @ isoformat d @ '' ('' @ day_name d @ '')''),
       Log ERROR ''ANTHROPIC_API_KEY not set''], SysExit 1)"
      by (intro main_generate_no_key) auto
    then show ?thesis by (blast intro: main_SysExit)
  qed
  then obtain m where m: "main w =
     ([Log INFO (''Running for date: '' @ isoformat d @ '' ('' @ day_name d @ '')''),
       Log ERROR m], SysExit 1)" by blast
  from m show "snd (main w) = SysExit 1" by simp
  from m show "exit_status (snd (main w)) \<noteq> 0" by simp
  from m show "network_calls (fst (main w)) = []" by (simp add: network_calls_def)
next
  assume "dry_run (args w)"
  then show "main (w\<lparr>config := (config w)\<lparr>LINKEDIN_ACCESS_TOKEN := tok\<rparr>\<rparr>) = main w"
    by (simp add: main_def main_generate_token_unused main_publish_dry)
qed

lemma target_date_demo:
  "date_opt (args w) = Some ''2024-06-02'' \<Longrightarrow>
   fromisoformat w ''2024-06-02'' = Inr \<lparr>year = 2024, month = 6, day = 2\<rparr> \<Longrightarrow>
   snd (target_date w) = Ok \<lparr>year = 2024, month = 6, day = 2\<rparr>"
  by (simp add: target_date_def atoms)

theorem missing_credentials_exit_before_network_witness:
  "snd (main (demo_world\<lparr>config := (config demo_world)\<lparr>ANTHROPIC_API_KEY := None\<rparr>\<rparr>)) = SysExit 1
   \<and> network_calls
       (fst (main (demo_world\<lparr>config := (config demo_world)\<lparr>ANTHROPIC_API_KEY := None\<rparr>\<rparr>))) = []
   \<and> snd (main (demo_world\<lparr>config := (config demo_world)\<lparr>LINKEDIN_ACCESS_TOKEN := Some []\<rparr>\<rparr>))
       = SysExit 1
   \<and> main (demo_world\<lparr>args := (args demo_world)\<lparr>dry_run := True\<rparr>,
                       config := (config (demo_world\<lparr>args := (args demo_world)\<lparr>dry_run := True\<rparr>\<rparr>))
                                   \<lparr>LINKEDIN_ACCESS_TOKEN := None\<rparr>\<rparr>)
       = main (demo_world\<lparr>args := (args demo_world)\<lparr>dry_run := True\<rparr>\<rparr>)"
proof -
  let ?d = "\<lparr>year = 2024, month = 6, day = 2\<rparr>"
  let ?w1 = "demo_world\<lparr>config := (config demo_world)\<lparr>ANTHROPIC_API_KEY := None\<rparr>\<rparr>"
  let ?w2 = "demo_world\<lparr>config := (config demo_world)\<lparr>LINKEDIN_ACCESS_TOKEN := Some []\<rparr>\<rparr>"
  let ?w3 = "demo_world\<lparr>args := (args demo_world)\<lparr>dry_run := True\<rparr>\<rparr>"
  have d1: "snd (target_date ?w1) = Ok ?d" and d2: "snd (target_date ?w2) = Ok ?d"
    by (simp_all add: target_date_demo demo_world_sel)
  have sunday: "day_name ?d \<in> set (map fst POSTING_DAYS)"
    by (simp add: day_name_demo POSTING_DAYS_def)
  have k1: "unset (ANTHROPIC_API_KEY (config ?w1))" by simp
  have k2: "\<not> dry_run (args ?w2) \<and> unset (LINKEDIN_ACCESS_TOKEN (config ?w2))"
    by (simp add: demo_world_sel)
  have k3: "dry_run (args ?w3)" by simp
  from missing_credentials_exit_before_network [of ?w1 ?d None] d1 sunday k1
  have r1: "snd (main ?w1) = SysExit 1 \<and> network_calls (fst (main ?w1)) = []" by blast
  from missing_credentials_exit_before_network [of ?w2 ?d None] d2 sunday k2
  have r2: "snd (main ?w2) = SysExit 1" by blast
  from missing_credentials_exit_before_network [of ?w3 ?d None] k3
  have r3: "main (?w3\<lparr>config := (config ?w3)\<lparr>LINKEDIN_ACCESS_TOKEN := None\<rparr>\<rparr>) = main ?w3"
    by blast
  from r1 r2 r3 show ?thesis by simp
qed

lemma http_calls_main_not_generated:
  "\<forall>x. snd (main_generate w) \<noteq> Ok x \<Longrightarrow> fst (main w) = fst (main_generate w)"
  by (cases "main_generate w") (auto simp: main_def thn_def split: result.splits)

text \<open>
  Claim C4. In every dry run, whatever the calendar holds, nothing is handed to
  \<^verbatim>\<open>requests\<close>: no upload, no publication, no other call. Once the text is generated, the
  run logs that it is a dry run and \<^verbatim>\<open>main\<close> returns.
\<close>

theorem dry_run_never_uploads_or_publishes:
  "dry_run (args w) \<longrightarrow>
     http_calls (fst (main w)) = []
     \<and> (\<forall>post post_text. snd (main_generate w) = Ok (post, post_text) \<longrightarrow>
          main w = (fst (main_generate w) @ [Log INFO ''DRY RUN - Not posting to LinkedIn''],
                    Return))"
proof (intro impI conjI allI)
  assume dry: "dry_run (args w)"
  show "http_calls (fst (main w)) = []"
  proof (cases "\<exists>x. snd (main_generate w) = Ok x")
    case True
    then obtain post post_text where "snd (main_generate w) = Ok (post, post_text)" by force
    then have "main_generate w = (fst (main_generate w), Ok (post, post_text))"
      by (metis prod.collapse)
    from main_Ok [OF this] dry show ?thesis by (simp add: main_publish_dry)
  next
    case False
    then show ?thesis by (simp add: http_calls_main_not_generated)
  qed
next
  fix post post_text
  assume dry: "dry_run (args w)" and "snd (main_generate w) = Ok (post, post_text)"
  then have "main_generate w = (fst (main_generate w), Ok (post, post_text))"
    by (metis prod.collapse)
  from main_Ok [OF this] dry
  show "main w = (fst (main_generate w) @ [Log INFO ''DRY RUN - Not posting to LinkedIn''], Return)"
    by (simp add: main_publish_dry)
qed


section \<open>A run that generates its text\<close>

lemma generate_post_text_Ok:
  assumes "system_prompt_txt w = Inr system_prompt"
    and "map_of post ''post_type'' = Some post_type"
    and "map_of post ''week'' = Some week"
    and "map_of post ''content_data'' = Some content_data"
    and "messages_create w key CLAUDE_MODEL 1500 system_prompt
           (user_prompt w post_type week content_data) = Inr (txt # rest)"
  shows "generate_post_text w post key =
     ([Log INFO ''Generating post text with Claude...'',
       LLM key CLAUDE_MODEL 1500 system_prompt (user_prompt w post_type week content_data),
       Log INFO (''Generated '' @ str_nat (py_len txt) @ '' characters of post text'')],
      Ok txt)"
  using assms
  by (simp add: generate_post_text_def load_system_prompt_def atoms dict_item_def)

lemma main_generate_found:
  assumes "snd (target_date w) = Ok d"
    and "day_name d \<in> set (map fst POSTING_DAYS) \<or> force (args w)"
    and "dry_run (args w) \<or> \<not> unset (LINKEDIN_ACCESS_TOKEN (config w))"
    and "\<not> unset (ANTHROPIC_API_KEY (config w))"
    and "calendar_json w = Inr calendar"
    and "get_todays_post w calendar (Some d) = Some post" and "post \<noteq> []"
    and "system_prompt_txt w = Inr system_prompt"
    and "map_of post ''post_type'' = Some post_type"
    and "map_of post ''week'' = Some week"
    and "map_of post ''content_data'' = Some content_data"
    and "messages_create w (ANTHROPIC_API_KEY (config w)) CLAUDE_MODEL 1500 system_prompt
           (user_prompt w post_type week content_data) = Inr (txt # rest)"
  shows "main_generate w =
     ([Log INFO (''Running for date: '' @ isoformat d @ '' ('' @ day_name d @ '')''),
       Log INFO (''Found scheduled post: Week '' @ py_str w week @ '' - ''
                  @ py_str w post_type @ '' - ''
                  @ py_str w (dict_get post ''title'' (PStr ''Untitled''))),
       Log INFO ''Generating post text with Claude...'',
       LLM (ANTHROPIC_API_KEY (config w)) CLAUDE_MODEL 1500 system_prompt
         (user_prompt w post_type week content_data),
       Log INFO (''Generated '' @ str_nat (py_len txt) @ '' characters of post text''),
       Log INFO (replicate 50 (CHR ''='')),
       Log INFO ''GENERATED POST TEXT:'',
       Log INFO (replicate 50 (CHR ''='')),
       Log INFO txt,
       Log INFO (replicate 50 (CHR ''=''))],
      Ok (post, txt))"
proof -
  note g = generate_post_text_Ok [OF assms(8,9,10,11,12)]
  from assms(1-7,9,10) show ?thesis
    by (auto simp add: main_generate_def target_date_Ok load_calendar_def atoms dict_item_def g)
qed

lemma demo_lookup:
  "get_todays_post w demo_calendar (Some \<lparr>year = 2024, month = 6, day = 2\<rparr>)
     = Some (demo_entry 3 ''2024-06-02'')"
  by (simp add: get_todays_post_def isoformat_demo demo_calendar_def demo_entry_def dict_get_def)

lemma demo_entry_fields:
  "map_of (demo_entry n d) ''post_type'' = Some (PStr ''gene'')"
  "map_of (demo_entry n d) ''week'' = Some (PInt n)"
  "map_of (demo_entry n d) ''content_data'' = Some (PDict [])"
  "map_of (demo_entry n d) ''image_file'' = Some (PStr ''w3.jpg'')"
  "map_of (demo_entry n d) ''title'' = None"
  "demo_entry n d \<noteq> []"
  by (simp_all add: demo_entry_def)

lemma main_generate_demo:
  assumes "date_opt (args w) = Some ''2024-06-02''"
    and "fromisoformat w ''2024-06-02'' = Inr \<lparr>year = 2024, month = 6, day = 2\<rparr>"
    and "dry_run (args w) \<or> \<not> unset (LINKEDIN_ACCESS_TOKEN (config w))"
    and "ANTHROPIC_API_KEY (config w) = Some ''sk-key''"
    and "calendar_json w = Inr demo_calendar"
    and "system_prompt_txt w = Inr ''You write posts.''"
    and "messages_create w (Some ''sk-key'') CLAUDE_MODEL 1500 ''You write posts.''
           (user_prompt w (PStr ''gene'') (PInt 3) (PDict [])) = Inr [txt]"
  shows "main_generate w =
     ([Log INFO ''Running for date: 2024-06-02 (sunday)'',
       Log INFO ''Found scheduled post: Week 3 - gene - Untitled'',
       Log INFO ''Generating post text with Claude...'',
       LLM (Some ''sk-key'') CLAUDE_MODEL 1500 ''You write posts.''
         (user_prompt w (PStr ''gene'') (PInt 3) (PDict [])),
       Log INFO (''Generated '' @ str_nat (py_len txt) @ '' characters of post text''),
       Log INFO (replicate 50 (CHR ''='')),
       Log INFO ''GENERATED POST TEXT:'',
       Log INFO (replicate 50 (CHR ''='')),
       Log INFO txt,
       Log INFO (replicate 50 (CHR ''=''))],
      Ok (demo_entry 3 ''2024-06-02'', txt))"
proof -
  have "main_generate w =
     ([Log INFO (''Running for date: '' @ isoformat \<lparr>year = 2024, month = 6, day = 2\<rparr>
                  @ '' ('' @ day_name \<lparr>year = 2024, month = 6, day = 2\<rparr> @ '')''),
       Log INFO (''Found scheduled post: Week '' @ py_str w (PInt 3) @ '' - ''
                  @ py_str w (PStr ''gene'') @ '' - ''
                  @ py_str w (dict_get (demo_entry 3 ''2024-06-02'') ''title'' (PStr ''Untitled''))),
       Log INFO ''Generating post text with Claude...'',
       LLM (ANTHROPIC_API_KEY (config w)) CLAUDE_MODEL 1500 ''You write posts.''
         (user_prompt w (PStr ''gene'') (PInt 3) (PDict [])),
       Log INFO (''Generated '' @ str_nat (py_len txt) @ '' characters of post text''),
       Log INFO (replicate 50 (CHR ''='')),
       Log INFO ''GENERATED POST TEXT:'',
       Log INFO (replicate 50 (CHR ''='')),
       Log INFO txt,
       Log INFO (replicate 50 (CHR ''=''))],
      Ok (demo_entry 3 ''2024-06-02'', txt))"
    using assms
    by (intro main_generate_found [where calendar = demo_calendar and rest = "[]"])
       (simp_all add: target_date_demo demo_lookup demo_entry_fields day_name_demo POSTING_DAYS_def)
  then show ?thesis
    using assms(4)
    by (simp add: isoformat_demo day_name_demo dict_get_def demo_entry_fields str_int_def
          str_nat.simps digit_char_def)
qed

theorem dry_run_never_uploads_or_publishes_witness:
  "dry_run (args (demo_world\<lparr>args := (args demo_world)\<lparr>dry_run := True\<rparr>\<rparr>))
   \<and> snd (main_generate (demo_world\<lparr>args := (args demo_world)\<lparr>dry_run := True\<rparr>\<rparr>))
       = Ok (demo_entry 3 ''2024-06-02'', ''Hello'')
   \<and> http_calls (fst (main (demo_world\<lparr>args := (args demo_world)\<lparr>dry_run := True\<rparr>\<rparr>))) = []
   \<and> snd (main (demo_world\<lparr>args := (args demo_world)\<lparr>dry_run := True\<rparr>\<rparr>)) = Return"
proof -
  let ?w = "demo_world\<lparr>args := (args demo_world)\<lparr>dry_run := True\<rparr>\<rparr>"
  have g: "snd (main_generate ?w) = Ok (demo_entry 3 ''2024-06-02'', ''Hello'')"
    by (subst main_generate_demo [of _ "''Hello''"]) (simp_all add: demo_world_sel)
  have d: "dry_run (args ?w)" by simp
  from dry_run_never_uploads_or_publishes [of ?w] d g show ?thesis by simp
qed

section \<open>The guarded publication\<close>

lemma http_calls_mem: "(a, q) \<in> set (http_calls t) \<longleftrightarrow> Http a q \<in> set t"
  by (induction t rule: http_calls.induct) auto

lemma trace_get_person_urn:
  "(\<And>l s. P (Log l s)) \<Longrightarrow> (\<And>q. P (Http UserInfo q)) \<Longrightarrow>
   list_all P (fst (get_person_urn w tok))"
  unfolding get_person_urn_def Let_def
  by (intro trace_thn trace_if) simp_all

lemma trace_send_slack:
  "(\<And>l s. P (Log l s)) \<Longrightarrow> (\<And>q. P (Http Webhook q)) \<Longrightarrow>
   list_all P (fst (send_slack_notification w m s))"
  unfolding send_slack_notification_def
  by (auto split: option.splits intro!: trace_try trace_thn)

lemma upload_register_not_200:
  "requests w (register_request tok urn) = Inr r \<Longrightarrow> status_code r \<noteq> 200 \<Longrightarrow>
   upload_image_to_linkedin w path tok urn =
     ([Log INFO ''Registering image upload with LinkedIn...'',
       Http RegisterUpload (register_request tok urn),
       Log ERROR (''Failed to register upload: '' @ resp_text r)],
      Raise (Exception (''LinkedIn upload registration failed: '' @ str_int (status_code r))))"
  by (simp add: upload_image_to_linkedin_def register_request_def atoms)

lemma trace_upload:
  "(\<And>l s. P (Log l s)) \<Longrightarrow> P (Http RegisterUpload (register_request tok urn)) \<Longrightarrow>
   (\<And>q. P (Http UploadBinary q)) \<Longrightarrow>
   list_all P (fst (upload_image_to_linkedin w path tok urn))"
  unfolding upload_image_to_linkedin_def register_request_def [symmetric]
  by (intro trace_thn trace_if) simp_all

lemma trace_create:
  "(\<And>l s. P (Log l s)) \<Longrightarrow> P (Http Publish (publish_request txt asset tok urn)) \<Longrightarrow>
   list_all P (fst (create_linkedin_post w txt asset tok urn))"
  unfolding create_linkedin_post_def publish_request_def [symmetric]
  by (intro trace_thn trace_if) simp_all

lemma http_calls_create:
  "http_calls (fst (create_linkedin_post w txt asset tok urn))
     = [(Publish, publish_request txt asset tok urn)]"
  by (simp add: create_linkedin_post_def publish_request_def atoms split: sum.splits)

lemma trace_main_try:
  assumes "\<And>l s. P (Log l s)" and "\<And>q. P (Http UserInfo q)"
    and "\<And>urn. snd (get_person_urn w (LINKEDIN_ACCESS_TOKEN (config w))) = Ok urn \<Longrightarrow>
           P (Http RegisterUpload (register_request (LINKEDIN_ACCESS_TOKEN (config w)) urn))"
    and "\<And>q. P (Http UploadBinary q)"
    and "\<And>urn asset.
           P (Http Publish (publish_request post_text asset (LINKEDIN_ACCESS_TOKEN (config w)) urn))"
    and "\<And>q. P (Http Webhook q)"
  shows "list_all P (fst (main_try w post post_text path))"
  unfolding main_try_def
  by (intro trace_thn trace_get_person_urn trace_upload trace_create trace_send_slack assms)
     (simp_all add: assms)

lemma trace_main_except:
  "(\<And>l s. P (Log l s)) \<Longrightarrow> (\<And>q. P (Http Webhook q)) \<Longrightarrow>
   list_all P (fst (main_except w post e))"
  unfolding main_except_def
  by (intro trace_thn trace_send_slack) simp_all

lemma main_except_week:
  "map_of post ''week'' = Some week \<Longrightarrow>
   main_except w post e =
     (Log ERROR (''Failed to post: '' @ exn_str e)
        # fst (send_slack_notification w (failure_message w week e) False),
      SysExit 1)"
  by (cases "send_slack_notification w (failure_message w week e) False")
     (use snd_send_slack [of w "failure_message w week e" False] in
       \<open>simp add: main_except_def atoms dict_item_def\<close>)

lemma main_try_Raise:
  "snd (get_person_urn w (LINKEDIN_ACCESS_TOKEN (config w))) = Raise e
   \<or> (\<exists>urn. snd (get_person_urn w (LINKEDIN_ACCESS_TOKEN (config w))) = Ok urn
        \<and> (snd (upload_image_to_linkedin w path (LINKEDIN_ACCESS_TOKEN (config w)) urn) = Raise e
           \<or> (\<exists>asset. snd (upload_image_to_linkedin w path (LINKEDIN_ACCESS_TOKEN (config w)) urn)
                        = Ok asset
                \<and> snd (create_linkedin_post w post_text asset
                         (LINKEDIN_ACCESS_TOKEN (config w)) urn) = Raise e)))
   \<Longrightarrow> snd (main_try w post post_text path) = Raise e"
  by (auto simp: main_try_def snd_thn)

lemma try_except_caught:
  "snd m = Raise e \<Longrightarrow> try_except m h = (fst m @ fst (h e), snd (h e))"
  by (simp add: try_except_def)

lemma main_publish_validated:
  "\<not> dry_run (args w) \<Longrightarrow> dict_get post ''image_file'' PNone = PStr f \<Longrightarrow> f \<noteq> [] \<Longrightarrow>
   path_exists w (images_dir_join w f) = Inr True \<Longrightarrow>
   main_publish w post post_text =
     try_except (main_try w post post_text (images_dir_join w f)) (main_except w post)"
  by (cases "try_except (main_try w post post_text (images_dir_join w f)) (main_except w post)")
     (simp add: main_publish_def images_dir_div_def atoms)

lemma main_publish_no_image:
  "\<not> dry_run (args w) \<Longrightarrow> \<not> truthy (dict_get post ''image_file'' PNone) \<Longrightarrow>
   main_publish w post post_text =
     ([Log ERROR ''No image_file specified in post data''], SysExit 1)"
  by (simp add: main_publish_def atoms)

lemma main_publish_image_not_found:
  "\<not> dry_run (args w) \<Longrightarrow> dict_get post ''image_file'' PNone = PStr f \<Longrightarrow> f \<noteq> [] \<Longrightarrow>
   path_exists w (images_dir_join w f) = Inr False \<Longrightarrow>
   main_publish w post post_text =
     ([Log ERROR (''Image not found: '' @ images_dir_join w f)], SysExit 1)"
  by (simp add: main_publish_def images_dir_div_def atoms)

lemma main_publish_path_error:
  "\<not> dry_run (args w) \<Longrightarrow> truthy (dict_get post ''image_file'' PNone) \<Longrightarrow>
   snd (thn (images_dir_div w (dict_get post ''image_file'' PNone))
          (\<lambda>image_path. of_sum (path_exists w image_path))) = Raise e \<Longrightarrow>
   main_publish w post post_text = ([], Raise e)"
  by (auto simp: main_publish_def images_dir_div_def atoms split: pyval.splits sum.splits)

lemma main_publish_shape:
  assumes "http_calls (fst (main_publish w post post_text)) \<noteq> []"
  shows "\<exists>f. \<not> dry_run (args w) \<and> dict_get post ''image_file'' PNone = PStr f \<and> f \<noteq> []
           \<and> path_exists w (images_dir_join w f) = Inr True
           \<and> main_publish w post post_text =
               try_except (main_try w post post_text (images_dir_join w f)) (main_except w post)"
proof -
  have dry: "\<not> dry_run (args w)"
    by (rule notI) (use assms in \<open>simp add: main_publish_dry\<close>)
  have tr: "truthy (dict_get post ''image_file'' PNone)"
    by (rule ccontr) (use assms dry in \<open>simp add: main_publish_no_image\<close>)
  show ?thesis
  proof (cases "dict_get post ''image_file'' PNone")
    case (PStr f)
    with tr have f: "f \<noteq> []" by simp
    show ?thesis
    proof (cases "path_exists w (images_dir_join w f)")
      case (Inl e)
      with dry tr PStr have "main_publish w post post_text = ([], Raise e)"
        by (intro main_publish_path_error) (simp_all add: images_dir_div_def atoms)
      with assms show ?thesis by simp
    next
      case (Inr found)
      show ?thesis
      proof (cases found)
        case True
        with dry PStr f Inr show ?thesis by (auto simp: main_publish_validated)
      next
        case False
        with dry PStr f Inr assms show ?thesis by (simp add: main_publish_image_not_found)
      qed
    qed
  qed (use assms dry tr in \<open>simp_all add: main_publish_def images_dir_div_def atoms\<close>)
qed

lemma thn_OkD:
  "thn m f = (t, Ok b) \<Longrightarrow> \<exists>a t1 t2. m = (t1, Ok a) \<and> f a = (t2, Ok b) \<and> t = t1 @ t2"
  by (cases m; cases "snd m"; cases "f (case snd m of Ok a \<Rightarrow> a)") (auto simp: thn_def)

lemma thn_OkE:
  assumes "thn m f = (t, Ok b)"
  obtains a t1 t2 where "m = (t1, Ok a)" "f a = (t2, Ok b)" "t = t1 @ t2"
  using thn_OkD [OF assms] by blast

lemma generate_post_text_OkD:
  assumes "generate_post_text w post key = (t, Ok txt)"
  shows "\<exists>system_prompt post_type week content_data rest.
           map_of post ''post_type'' = Some post_type \<and> map_of post ''week'' = Some week
           \<and> LLM key CLAUDE_MODEL 1500 system_prompt (user_prompt w post_type week content_data)
               \<in> set t
           \<and> messages_create w key CLAUDE_MODEL 1500 system_prompt
               (user_prompt w post_type week content_data) = Inr (txt # rest)"
  using assms unfolding generate_post_text_def load_system_prompt_def
  apply (elim thn_OkE)
  apply (auto simp: atoms dict_item_def split: sum.splits option.splits list.splits)
  done

lemma main_generate_OkD:
  assumes "main_generate w = (t, Ok (post, txt))"
  shows "\<exists>d calendar week post_type system_prompt content_data rest.
           snd (target_date w) = Ok d \<and> calendar_json w = Inr calendar
           \<and> get_todays_post w calendar (Some d) = Some post
           \<and> map_of post ''week'' = Some week \<and> map_of post ''post_type'' = Some post_type
           \<and> LLM (ANTHROPIC_API_KEY (config w)) CLAUDE_MODEL 1500 system_prompt
                (user_prompt w post_type week content_data) \<in> set t
           \<and> messages_create w (ANTHROPIC_API_KEY (config w)) CLAUDE_MODEL 1500 system_prompt
                (user_prompt w post_type week content_data) = Inr (txt # rest)"
  using assms unfolding main_generate_def load_calendar_def
  apply (elim thn_OkE)
  apply (drule generate_post_text_OkD)
  apply (auto simp: atoms dict_item_def split: sum.splits option.splits list.splits if_splits)
  done

lemma only_webhook:
  "(a, q) \<in> set (http_calls (fst (send_slack_notification w m s))) \<Longrightarrow> a = Webhook"
proof -
  have "list_all (\<lambda>e. case e of Http a q \<Rightarrow> a = Webhook | _ \<Rightarrow> True)
          (fst (send_slack_notification w m s))"
    by (rule trace_send_slack) simp_all
  then show "(a, q) \<in> set (http_calls (fst (send_slack_notification w m s))) \<Longrightarrow> a = Webhook"
    by (auto simp: http_calls_mem list_all_iff)
qed

lemma webhook_called:
  "SLACK_WEBHOOK_URL (config w) = Some url \<Longrightarrow> url \<noteq> [] \<Longrightarrow>
   (Webhook, POST url [] (slack_payload m s))
     \<in> set (http_calls (fst (send_slack_notification w m s)))"
  by (simp add: send_slack_set)

lemma generated:
  "snd (main_generate w) = Ok (post, post_text) \<Longrightarrow>
   main w = (fst (main_generate w) @ fst (main_publish w post post_text),
             snd (main_publish w post post_text))"
  by (rule main_Ok) (metis prod.collapse)

lemma failed_publication:
  assumes "snd (main_generate w) = Ok (post, post_text)"
    and "\<not> dry_run (args w)"
    and "dict_get post ''image_file'' PNone = PStr f" and "f \<noteq> []"
    and "path_exists w (images_dir_join w f) = Inr True"
    and "snd (main_try w post post_text (images_dir_join w f)) = Raise e"
    and "map_of post ''week'' = Some week"
  shows "main w =
     (fst (main_generate w) @ fst (main_try w post post_text (images_dir_join w f))
        @ Log ERROR (''Failed to post: '' @ exn_str e)
        # fst (send_slack_notification w (failure_message w week e) False),
      SysExit 1)"
  by (simp add: generated [OF assms(1)] main_publish_validated [OF assms(2-5)]
        try_except_caught [OF assms(6)] main_except_week [OF assms(7)])

text \<open>
  Claim C2. In every run in which the upload-registration call comes back with a status
  other than 200: no publish call is made; the process exits with status 1; the run has a
  calendar entry with a week number, and when a webhook URL is configured a call to it is
  made whose text is the failure mark followed by \<^verbatim>\<open>FAILED to post Week\<close>, that week
  number and the message of the registration error.
\<close>

theorem register_failure_stops_run:
  "(RegisterUpload, req) \<in> set (http_calls (fst (main w))) \<and> requests w req = Inr r
     \<and> status_code r \<noteq> 200
   \<longrightarrow> (\<forall>q. (Publish, q) \<notin> set (http_calls (fst (main w))))
       \<and> snd (main w) = SysExit 1 \<and> exit_status (snd (main w)) \<noteq> 0
       \<and> (\<exists>post post_text d calendar week.
             snd (main_generate w) = Ok (post, post_text)
           \<and> snd (target_date w) = Ok d \<and> calendar_json w = Inr calendar
           \<and> get_todays_post w calendar (Some d) = Some post
           \<and> map_of post ''week'' = Some week
           \<and> (\<forall>url. SLACK_WEBHOOK_URL (config w) = Some url \<and> url \<noteq> [] \<longrightarrow>
                 (Webhook, POST url []
                    (PDict [(''text'', PStr (emoji_cross @ '' FAILED to post Week '' @ py_str w week
                                @ '': LinkedIn upload registration failed: ''
                                @ str_int (status_code r))),
                            (''username'', PStr ''Bioscope LinkedIn Bot'')]))
                   \<in> set (http_calls (fst (main w)))))"
proof (intro impI)
  assume a: "(RegisterUpload, req) \<in> set (http_calls (fst (main w))) \<and> requests w req = Inr r
     \<and> status_code r \<noteq> 200"
  let ?tok = "LINKEDIN_ACCESS_TOKEN (config w)"
  let ?e = "Exception (''LinkedIn upload registration failed: '' @ str_int (status_code r))"
  have "\<exists>x. snd (main_generate w) = Ok x"
  proof (rule ccontr)
    assume "\<not> (\<exists>x. snd (main_generate w) = Ok x)"
    then have "fst (main w) = fst (main_generate w)"
      by (simp add: http_calls_main_not_generated)
    with a show False by simp
  qed
  then obtain post post_text where g: "snd (main_generate w) = Ok (post, post_text)" by force
  then have g': "main_generate w = (fst (main_generate w), Ok (post, post_text))"
    by (metis prod.collapse)
  from main_generate_OkD [OF g'] obtain d calendar week where
    look: "snd (target_date w) = Ok d" "calendar_json w = Inr calendar"
      "get_todays_post w calendar (Some d) = Some post"
    and week: "map_of post ''week'' = Some week" by blast
  from a generated [OF g]
  have reg: "(RegisterUpload, req) \<in> set (http_calls (fst (main_publish w post post_text)))"
    by simp
  then have "http_calls (fst (main_publish w post post_text)) \<noteq> []" by auto
  from main_publish_shape [OF this] obtain f where
    nd: "\<not> dry_run (args w)" and img: "dict_get post ''image_file'' PNone = PStr f" "f \<noteq> []"
      "path_exists w (images_dir_join w f) = Inr True"
    and pub: "main_publish w post post_text =
      try_except (main_try w post post_text (images_dir_join w f)) (main_except w post)"
    by blast
  let ?R = "\<lambda>e. case e of
                 Http a q \<Rightarrow> a = RegisterUpload \<longrightarrow>
                   (\<exists>urn. snd (get_person_urn w ?tok) = Ok urn \<and> q = register_request ?tok urn)
               | _ \<Rightarrow> True"
  have "list_all ?R
          (fst (try_except (main_try w post post_text (images_dir_join w f)) (main_except w post)))"
    by (intro trace_try trace_main_try trace_main_except) auto
  with reg pub
  have "\<exists>urn. snd (get_person_urn w ?tok) = Ok urn \<and> req = register_request ?tok urn"
    by (force simp: http_calls_mem list_all_iff)
  then obtain urn where urn: "snd (get_person_urn w ?tok) = Ok urn"
    and req: "req = register_request ?tok urn"
    by blast
  from a req have up: "upload_image_to_linkedin w (images_dir_join w f) ?tok urn =
     ([Log INFO ''Registering image upload with LinkedIn...'',
       Http RegisterUpload (register_request ?tok urn),
       Log ERROR (''Failed to register upload: '' @ resp_text r)], Raise ?e)"
    by (intro upload_register_not_200) auto
  have gp: "get_person_urn w ?tok = (fst (get_person_urn w ?tok), Ok urn)"
    using urn by (metis prod.collapse)
  have mt: "main_try w post post_text (images_dir_join w f) =
     (fst (get_person_urn w ?tok)
        @ [Log INFO ''Registering image upload with LinkedIn...'',
           Http RegisterUpload (register_request ?tok urn),
           Log ERROR (''Failed to register upload: '' @ resp_text r)], Raise ?e)"
    unfolding main_try_def by (subst gp) (simp add: up)
  then have "snd (main_try w post post_text (images_dir_join w f)) = Raise ?e" by simp
  from failed_publication [OF g nd img this week] mt
  have m: "main w =
     (fst (main_generate w) @ fst (get_person_urn w ?tok)
        @ [Log INFO ''Registering image upload with LinkedIn...'',
           Http RegisterUpload (register_request ?tok urn),
           Log ERROR (''Failed to register upload: '' @ resp_text r),
           Log ERROR (''Failed to post: '' @ exn_str ?e)]
        @ fst (send_slack_notification w (failure_message w week ?e) False),
      SysExit 1)"
    by simp
  then have calls: "http_calls (fst (main w)) =
     [(UserInfo, userinfo_request ?tok), (RegisterUpload, register_request ?tok urn)]
       @ http_calls (fst (send_slack_notification w (failure_message w week ?e) False))"
    by (simp add: http_calls_get_person_urn)
  have no_publish: "\<forall>q. (Publish, q) \<notin> set (http_calls (fst (main w)))"
    using only_webhook [of Publish _ w "failure_message w week ?e" False]
    by (auto simp: calls)
  have notified: "\<forall>url. SLACK_WEBHOOK_URL (config w) = Some url \<and> url \<noteq> [] \<longrightarrow>
     (Webhook, POST url []
        (PDict [(''text'', PStr (emoji_cross @ '' FAILED to post Week '' @ py_str w week
                    @ '': LinkedIn upload registration failed: '' @ str_int (status_code r))),
                (''username'', PStr ''Bioscope LinkedIn Bot'')]))
       \<in> set (http_calls (fst (main w)))"
    using webhook_called [of w _ "failure_message w week ?e" False]
    by (auto simp: calls slack_payload_def failure_message_def)
  from m no_publish notified g look week show
    "(\<forall>q. (Publish, q) \<notin> set (http_calls (fst (main w))))
       \<and> snd (main w) = SysExit 1 \<and> exit_status (snd (main w)) \<noteq> 0
       \<and> (\<exists>post post_text d calendar week.
             snd (main_generate w) = Ok (post, post_text)
           \<and> snd (target_date w) = Ok d \<and> calendar_json w = Inr calendar
           \<and> get_todays_post w calendar (Some d) = Some post
           \<and> map_of post ''week'' = Some week
           \<and> (\<forall>url. SLACK_WEBHOOK_URL (config w) = Some url \<and> url \<noteq> [] \<longrightarrow>
                 (Webhook, POST url []
                    (PDict [(''text'', PStr (emoji_cross @ '' FAILED to post Week '' @ py_str w week
                                @ '': LinkedIn upload registration failed: ''
                                @ str_int (status_code r))),
                            (''username'', PStr ''Bioscope LinkedIn Bot'')]))
                   \<in> set (http_calls (fst (main w)))))"
    by (intro conjI exI [of _ post] exI [of _ post_text] exI [of _ d] exI [of _ calendar]
          exI [of _ week]) simp_all
qed

lemma fst_try_except:
  "fst (try_except m h) = fst m @ (case snd m of Raise e \<Rightarrow> fst (h e) | _ \<Rightarrow> [])"
  by (cases m) (simp add: try_except_def split: result.splits)

lemma register_in_upload:
  "Http RegisterUpload (register_request tok urn)
     \<in> set (fst (upload_image_to_linkedin w path tok urn))"
  by (simp add: upload_image_to_linkedin_def fst_thn register_request_def)

lemma publish_in_create:
  "Http Publish (publish_request txt asset tok urn)
     \<in> set (fst (create_linkedin_post w txt asset tok urn))"
  by (simp add: create_linkedin_post_def fst_thn publish_request_def)

lemma register_reached:
  assumes "snd (main_generate w) = Ok (post, post_text)" and "\<not> dry_run (args w)"
    and "dict_get post ''image_file'' PNone = PStr f" and "f \<noteq> []"
    and "path_exists w (images_dir_join w f) = Inr True"
    and "snd (get_person_urn w (LINKEDIN_ACCESS_TOKEN (config w))) = Ok urn"
  shows "(RegisterUpload, register_request (LINKEDIN_ACCESS_TOKEN (config w)) urn)
           \<in> set (http_calls (fst (main w)))"
  using register_in_upload [of "LINKEDIN_ACCESS_TOKEN (config w)" urn w "images_dir_join w f"]
  by (simp add: generated [OF assms(1)] main_publish_validated [OF assms(2-5)]
        http_calls_mem fst_try_except main_try_def fst_thn assms(6))

lemma publish_reached:
  assumes "snd (main_generate w) = Ok (post, post_text)" and "\<not> dry_run (args w)"
    and "dict_get post ''image_file'' PNone = PStr f" and "f \<noteq> []"
    and "path_exists w (images_dir_join w f) = Inr True"
    and "snd (get_person_urn w (LINKEDIN_ACCESS_TOKEN (config w))) = Ok urn"
    and "snd (upload_image_to_linkedin w (images_dir_join w f)
                (LINKEDIN_ACCESS_TOKEN (config w)) urn) = Ok asset"
  shows "(Publish, publish_request post_text asset (LINKEDIN_ACCESS_TOKEN (config w)) urn)
           \<in> set (http_calls (fst (main w)))"
  using publish_in_create [of post_text asset "LINKEDIN_ACCESS_TOKEN (config w)" urn w]
  by (simp add: generated [OF assms(1)] main_publish_validated [OF assms(2-5)]
        http_calls_mem fst_try_except main_try_def fst_thn assms(6,7))

lemma demo_identity:
  "requests w = demo_requests n \<Longrightarrow>
   snd (get_person_urn w tok) = Ok ''urn:li:person:abc123''"
  by (subst get_person_urn_object
        [where r = "\<lparr>status_code = 200, resp_text = ''{...}'',
               resp_json = Inr (PDict [(''sub'', PStr ''abc123''), (''name'', PStr ''Don'')])\<rparr>"
           and d = "[(''sub'', PStr ''abc123''), (''name'', PStr ''Don'')]"])
     (simp_all add: demo_requests_def userinfo_request_def dict_get_def)

lemma demo_upload:
  "requests w = demo_requests 200 \<Longrightarrow> read_bytes w path = Inr data \<Longrightarrow>
   snd (upload_image_to_linkedin w path tok urn) = Ok (PStr ''urn:li:digitalmediaAsset:A1'')"
  by (simp add: upload_image_to_linkedin_def atoms demo_requests_def subscript_def dict_item_def)

theorem register_failure_stops_run_witness:
  "(RegisterUpload, register_request (Some ''tok'') ''urn:li:person:abc123'')
      \<in> set (http_calls (fst (main (demo_world\<lparr>requests := demo_requests 500\<rparr>))))
   \<and> status_code \<lparr>status_code = 500, resp_text = ''registered'', resp_json = Inr PNone\<rparr> \<noteq> 200
   \<and> snd (main (demo_world\<lparr>requests := demo_requests 500\<rparr>)) = SysExit 1
   \<and> (Webhook, POST ''https://hooks.example/T1'' []
         (PDict [(''text'', PStr (emoji_cross
                     @ '' FAILED to post Week 3: LinkedIn upload registration failed: 500'')),
                 (''username'', PStr ''Bioscope LinkedIn Bot'')]))
      \<in> set (http_calls (fst (main (demo_world\<lparr>requests := demo_requests 500\<rparr>))))
   \<and> \<not> (\<exists>q. (Publish, q)
             \<in> set (http_calls (fst (main (demo_world\<lparr>requests := demo_requests 500\<rparr>)))))"
proof -
  let ?w = "demo_world\<lparr>requests := demo_requests 500\<rparr>"
  let ?req = "register_request (Some ''tok'') ''urn:li:person:abc123''"
  have g: "snd (main_generate ?w) = Ok (demo_entry 3 ''2024-06-02'', ''Hello'')"
    by (subst main_generate_demo [of _ "''Hello''"]) (simp_all add: demo_world_sel)
  have reached: "(RegisterUpload, ?req) \<in> set (http_calls (fst (main ?w)))"
    using register_reached [OF g, of "''w3.jpg''" "''urn:li:person:abc123''"]
    by (simp add: demo_world_sel dict_get_def demo_entry_fields demo_identity)
  let ?r = "\<lparr>status_code = 500, resp_text = ''registered'',
            resp_json = Inr (PDict [(''value'', PDict [
                      (''uploadMechanism'', PDict [
                         (''com.linkedin.digitalmedia.uploading.MediaUploadHttpRequest'',
                          PDict [(''uploadUrl'', PStr ''https://up.example/1'')])]),
                      (''asset'', PStr ''urn:li:digitalmediaAsset:A1'')])])\<rparr>"
  have resp: "requests ?w ?req = Inr ?r"
    by (simp add: demo_requests_def register_request_def)
  have st: "status_code ?r \<noteq> 200" by simp
  note c = mp [OF register_failure_stops_run [of ?req ?w ?r] conjI [OF reached conjI [OF resp st]]]
  from c obtain post post_text week where
    r: "\<forall>q. (Publish, q) \<notin> set (http_calls (fst (main ?w)))" "snd (main ?w) = SysExit 1"
      "snd (main_generate ?w) = Ok (post, post_text)" "map_of post ''week'' = Some week"
      "\<forall>url. SLACK_WEBHOOK_URL (config ?w) = Some url \<and> url \<noteq> [] \<longrightarrow>
         (Webhook, POST url []
            (PDict [(''text'', PStr (emoji_cross @ '' FAILED to post Week '' @ py_str ?w week
                        @ '': LinkedIn upload registration failed: '' @ str_int (status_code ?r))),
                    (''username'', PStr ''Bioscope LinkedIn Bot'')]))
           \<in> set (http_calls (fst (main ?w)))"
    by blast
  from r(3) g have "post = demo_entry 3 ''2024-06-02''" by simp
  with r(4) have week: "week = PInt 3" by (simp add: demo_entry_fields)
  from r(5) have "(Webhook, POST ''https://hooks.example/T1'' []
            (PDict [(''text'', PStr (emoji_cross @ '' FAILED to post Week '' @ py_str ?w week
                        @ '': LinkedIn upload registration failed: '' @ str_int 500)),
                    (''username'', PStr ''Bioscope LinkedIn Bot'')]))
           \<in> set (http_calls (fst (main ?w)))"
    by (simp add: demo_world_sel)
  with week have "(Webhook, POST ''https://hooks.example/T1'' []
         (PDict [(''text'', PStr (emoji_cross
                     @ '' FAILED to post Week 3: LinkedIn upload registration failed: 500'')),
                 (''username'', PStr ''Bioscope LinkedIn Bot'')]))
      \<in> set (http_calls (fst (main ?w)))"
    by (simp add: str_int_def str_nat.simps digit_char_def)
  with reached r(1,2) show ?thesis by simp
qed

section \<open>The text that is published\<close>

text \<open>
  Claim C9. The publish step sends its text argument unchanged as the \<^verbatim>\<open>commentary\<close> of
  the post, in its one call, whatever the length of the text: \<^verbatim>\<open>MAX_POST_LENGTH\<close> is
  never consulted. In a run of \<^verbatim>\<open>main\<close>, every publish call carries as commentary the
  first text block that the language model returned.
\<close>

theorem publish_sends_text_verbatim:
  "http_calls (fst (create_linkedin_post w txt asset tok urn))
     = [(Publish, POST LINKEDIN_POSTS_URL (json_headers tok) (post_payload txt asset urn))]
   \<and> subscript w (post_payload txt asset urn) ''commentary'' = Inr (PStr txt)
   \<and> (\<forall>q. (Publish, q) \<in> set (http_calls (fst (main w))) \<longrightarrow>
        (\<exists>post post_text system_prompt content rest hdrs body.
            snd (main_generate w) = Ok (post, post_text)
          \<and> LLM (ANTHROPIC_API_KEY (config w)) CLAUDE_MODEL 1500 system_prompt content
              \<in> set (fst (main w))
          \<and> messages_create w (ANTHROPIC_API_KEY (config w)) CLAUDE_MODEL 1500 system_prompt
              content = Inr (post_text # rest)
          \<and> q = POST LINKEDIN_POSTS_URL hdrs body
          \<and> subscript w body ''commentary'' = Inr (PStr post_text)))"
proof (intro conjI allI impI)
  show "http_calls (fst (create_linkedin_post w txt asset tok urn))
     = [(Publish, POST LINKEDIN_POSTS_URL (json_headers tok) (post_payload txt asset urn))]"
    by (simp add: http_calls_create publish_request_def)
  show "subscript w (post_payload txt asset urn) ''commentary'' = Inr (PStr txt)"
    by (simp add: subscript_def post_payload_def dict_item_def)
next
  fix q
  assume a: "(Publish, q) \<in> set (http_calls (fst (main w)))"
  let ?tok = "LINKEDIN_ACCESS_TOKEN (config w)"
  have "\<exists>x. snd (main_generate w) = Ok x"
  proof (rule ccontr)
    assume "\<not> (\<exists>x. snd (main_generate w) = Ok x)"
    then have "fst (main w) = fst (main_generate w)"
      by (simp add: http_calls_main_not_generated)
    with a show False by simp
  qed
  then obtain post post_text where g: "snd (main_generate w) = Ok (post, post_text)" by force
  then have g': "main_generate w = (fst (main_generate w), Ok (post, post_text))"
    by (metis prod.collapse)
  from main_generate_OkD [OF g'] obtain system_prompt content rest where
    llm: "LLM (ANTHROPIC_API_KEY (config w)) CLAUDE_MODEL 1500 system_prompt content
            \<in> set (fst (main_generate w))"
    and answer: "messages_create w (ANTHROPIC_API_KEY (config w)) CLAUDE_MODEL 1500 system_prompt
            content = Inr (post_text # rest)"
    by blast
  from llm generated [OF g]
  have llm': "LLM (ANTHROPIC_API_KEY (config w)) CLAUDE_MODEL 1500 system_prompt content
            \<in> set (fst (main w))" by simp
  from a generated [OF g]
  have pcall: "(Publish, q) \<in> set (http_calls (fst (main_publish w post post_text)))" by simp
  then have "http_calls (fst (main_publish w post post_text)) \<noteq> []" by auto
  from main_publish_shape [OF this] obtain f where
    pub: "main_publish w post post_text =
      try_except (main_try w post post_text (images_dir_join w f)) (main_except w post)"
    by blast
  let ?P = "\<lambda>e. case e of
                 Http a r \<Rightarrow> a = Publish \<longrightarrow>
                   (\<exists>asset urn. r = publish_request post_text asset ?tok urn)
               | _ \<Rightarrow> True"
  have "list_all ?P
          (fst (try_except (main_try w post post_text (images_dir_join w f)) (main_except w post)))"
    by (intro trace_try trace_main_try trace_main_except) auto
  with pcall pub have "\<exists>asset urn. q = publish_request post_text asset ?tok urn"
    by (force simp: http_calls_mem list_all_iff)
  then obtain asset urn where q: "q = publish_request post_text asset ?tok urn" by auto
  have "subscript w (post_payload post_text asset urn) ''commentary'' = Inr (PStr post_text)"
    by (simp add: subscript_def post_payload_def dict_item_def)
  with g llm' answer q show
    "\<exists>post post_text system_prompt content rest hdrs body.
            snd (main_generate w) = Ok (post, post_text)
          \<and> LLM (ANTHROPIC_API_KEY (config w)) CLAUDE_MODEL 1500 system_prompt content
              \<in> set (fst (main w))
          \<and> messages_create w (ANTHROPIC_API_KEY (config w)) CLAUDE_MODEL 1500 system_prompt
              content = Inr (post_text # rest)
          \<and> q = POST LINKEDIN_POSTS_URL hdrs body
          \<and> subscript w body ''commentary'' = Inr (PStr post_text)"
    unfolding publish_request_def by blast
qed

lemma py_len_long_text: "py_len long_text = 3001"
  by (simp add: py_len_def long_text_def)

theorem publish_sends_text_verbatim_witness:
  "MAX_POST_LENGTH < py_len long_text
   \<and> (Publish, POST LINKEDIN_POSTS_URL (json_headers (Some ''tok''))
         (post_payload long_text (PStr ''urn:li:digitalmediaAsset:A1'') ''urn:li:person:abc123''))
       \<in> set (http_calls
                (fst (main (demo_world\<lparr>messages_create := (\<lambda>k m n s c. Inr [long_text])\<rparr>))))
   \<and> (\<exists>hdrs body.
         POST LINKEDIN_POSTS_URL (json_headers (Some ''tok''))
           (post_payload long_text (PStr ''urn:li:digitalmediaAsset:A1'') ''urn:li:person:abc123'')
         = POST LINKEDIN_POSTS_URL hdrs body
         \<and> subscript (demo_world\<lparr>messages_create := (\<lambda>k m n s c. Inr [long_text])\<rparr>) body
             ''commentary'' = Inr (PStr long_text))"
proof -
  let ?w = "demo_world\<lparr>messages_create := (\<lambda>k m n s c. Inr [long_text])\<rparr>"
  let ?q = "POST LINKEDIN_POSTS_URL (json_headers (Some ''tok''))
         (post_payload long_text (PStr ''urn:li:digitalmediaAsset:A1'') ''urn:li:person:abc123'')"
  have g: "snd (main_generate ?w) = Ok (demo_entry 3 ''2024-06-02'', long_text)"
    by (subst main_generate_demo [of _ long_text]) (simp_all add: demo_world_sel)
  have reached: "(Publish, ?q) \<in> set (http_calls (fst (main ?w)))"
    using publish_reached [OF g, of "''w3.jpg''" "''urn:li:person:abc123''"
        "PStr ''urn:li:digitalmediaAsset:A1''"]
    by (simp add: demo_world_sel dict_get_def demo_entry_fields demo_identity
          demo_upload [where data = "''JPEG''"] publish_request_def)
  from publish_sends_text_verbatim [of ?w long_text PNone None "[]"] reached
  obtain post post_text hdrs body where
    r: "snd (main_generate ?w) = Ok (post, post_text)" "?q = POST LINKEDIN_POSTS_URL hdrs body"
      "subscript ?w body ''commentary'' = Inr (PStr post_text)"
    by blast
  from r(1) g have "post_text = long_text" by simp
  with r(2,3) reached show ?thesis
    by (simp add: py_len_long_text MAX_POST_LENGTH_def)
qed

section \<open>Failures after the text is generated\<close>

text \<open>
  Claim C1, as amended. In every run that is not a dry run and has generated its text, the
  entry has a week number, and:
  \<^item> an exception raised by identity resolution, by the upload or by the publication is
    caught by the one \<^verbatim>\<open>except\<close> clause of \<^verbatim>\<open>main\<close>: the run logs \<^verbatim>\<open>Failed to post:\<close> with
    the text of the error, calls the notifier with \<^verbatim>\<open>FAILED to post Week\<close>, the week
    number and the text of the error (a webhook call when a URL is configured), and exits
    with status 1;
  \<^item> a failed check of the image (no \<^verbatim>\<open>image_file\<close>, or no such file) is logged and
    exits with status 1 at once, before the \<^verbatim>\<open>try\<close>: the notifier is not called;
  \<^item> an exception raised while the image path is built or tested is not caught: it ends
    \<^verbatim>\<open>main\<close>, with no log record and no notification.
\<close>

theorem publish_failure_is_caught_and_reported:
  "snd (main_generate w) = Ok (post, post_text) \<and> \<not> dry_run (args w) \<longrightarrow>
     (\<exists>week. map_of post ''week'' = Some week
        \<and> (\<forall>f e. dict_get post ''image_file'' PNone = PStr f \<and> f \<noteq> []
               \<and> path_exists w (images_dir_join w f) = Inr True
               \<and> (snd (get_person_urn w (LINKEDIN_ACCESS_TOKEN (config w))) = Raise e
                    \<or> (\<exists>urn. snd (get_person_urn w (LINKEDIN_ACCESS_TOKEN (config w))) = Ok urn
                          \<and> (snd (upload_image_to_linkedin w (images_dir_join w f)
                                     (LINKEDIN_ACCESS_TOKEN (config w)) urn) = Raise e
                               \<or> (\<exists>asset. snd (upload_image_to_linkedin w (images_dir_join w f)
                                                  (LINKEDIN_ACCESS_TOKEN (config w)) urn) = Ok asset
                                     \<and> snd (create_linkedin_post w post_text asset
                                              (LINKEDIN_ACCESS_TOKEN (config w)) urn) = Raise e))))
             \<longrightarrow> snd (main w) = SysExit 1
                 \<and> fst (main w) =
                     fst (main_generate w) @ fst (main_try w post post_text (images_dir_join w f))
                       @ Log ERROR (''Failed to post: '' @ exn_str e)
                       # fst (send_slack_notification w
                                (''FAILED to post Week '' @ py_str w week @ '': '' @ exn_str e) False)
                 \<and> (\<forall>url. SLACK_WEBHOOK_URL (config w) = Some url \<and> url \<noteq> [] \<longrightarrow>
                       (Webhook, POST url []
                          (PDict [(''text'', PStr (emoji_cross @ '' FAILED to post Week ''
                                      @ py_str w week @ '': '' @ exn_str e)),
                                  (''username'', PStr ''Bioscope LinkedIn Bot'')]))
                         \<in> set (http_calls (fst (main w))))))
     \<and> (\<not> truthy (dict_get post ''image_file'' PNone) \<longrightarrow>
          main w = (fst (main_generate w) @ [Log ERROR ''No image_file specified in post data''],
                    SysExit 1))
     \<and> (\<forall>f. dict_get post ''image_file'' PNone = PStr f \<and> f \<noteq> []
             \<and> path_exists w (images_dir_join w f) = Inr False \<longrightarrow>
          main w = (fst (main_generate w) @ [Log ERROR (''Image not found: '' @ images_dir_join w f)],
                    SysExit 1))
     \<and> (\<forall>e. truthy (dict_get post ''image_file'' PNone)
             \<and> snd (thn (images_dir_div w (dict_get post ''image_file'' PNone))
                      (\<lambda>image_path. of_sum (path_exists w image_path))) = Raise e \<longrightarrow>
          main w = (fst (main_generate w), Raise e))"
proof (intro impI)
  assume a: "snd (main_generate w) = Ok (post, post_text) \<and> \<not> dry_run (args w)"
  then have g: "snd (main_generate w) = Ok (post, post_text)" and nd: "\<not> dry_run (args w)"
    by simp_all
  from g have g': "main_generate w = (fst (main_generate w), Ok (post, post_text))"
    by (metis prod.collapse)
  from main_generate_OkD [OF g'] obtain week where week: "map_of post ''week'' = Some week"
    by blast
  let ?tok = "LINKEDIN_ACCESS_TOKEN (config w)"
  have caught: "snd (main w) = SysExit 1
      \<and> fst (main w) =
            fst (main_generate w) @ fst (main_try w post post_text (images_dir_join w f))
              @ Log ERROR (''Failed to post: '' @ exn_str e)
              # fst (send_slack_notification w
                       (''FAILED to post Week '' @ py_str w week @ '': '' @ exn_str e) False)
      \<and> (\<forall>url. SLACK_WEBHOOK_URL (config w) = Some url \<and> url \<noteq> [] \<longrightarrow>
              (Webhook, POST url []
                 (PDict [(''text'', PStr (emoji_cross @ '' FAILED to post Week ''
                             @ py_str w week @ '': '' @ exn_str e)),
                         (''username'', PStr ''Bioscope LinkedIn Bot'')]))
                \<in> set (http_calls (fst (main w))))"
    if img: "dict_get post ''image_file'' PNone = PStr f" "f \<noteq> []"
        "path_exists w (images_dir_join w f) = Inr True"
      and r: "snd (get_person_urn w ?tok) = Raise e
               \<or> (\<exists>urn. snd (get_person_urn w ?tok) = Ok urn
                     \<and> (snd (upload_image_to_linkedin w (images_dir_join w f) ?tok urn) = Raise e
                          \<or> (\<exists>asset. snd (upload_image_to_linkedin w (images_dir_join w f) ?tok urn)
                                        = Ok asset
                                \<and> snd (create_linkedin_post w post_text asset ?tok urn) = Raise e)))"
    for f e
  proof -
    from r have "snd (main_try w post post_text (images_dir_join w f)) = Raise e"
      by (rule main_try_Raise)
    from failed_publication [OF g nd img this week]
    have m: "main w =
       (fst (main_generate w) @ fst (main_try w post post_text (images_dir_join w f))
          @ Log ERROR (''Failed to post: '' @ exn_str e)
          # fst (send_slack_notification w (failure_message w week e) False),
        SysExit 1)" .
    have "\<forall>url. SLACK_WEBHOOK_URL (config w) = Some url \<and> url \<noteq> [] \<longrightarrow>
              (Webhook, POST url [] (slack_payload (failure_message w week e) False))
                \<in> set (http_calls (fst (main w)))"
      using webhook_called [of w _ "failure_message w week e" False] by (auto simp: m)
    with m show ?thesis
      by (simp add: failure_message_def slack_payload_def)
  qed
  have no_image: "main w =
      (fst (main_generate w) @ [Log ERROR ''No image_file specified in post data''], SysExit 1)"
    if "\<not> truthy (dict_get post ''image_file'' PNone)"
    using that by (simp add: generated [OF g] main_publish_no_image [OF nd])
  have not_found: "main w =
      (fst (main_generate w) @ [Log ERROR (''Image not found: '' @ images_dir_join w f)], SysExit 1)"
    if "dict_get post ''image_file'' PNone = PStr f \<and> f \<noteq> []
          \<and> path_exists w (images_dir_join w f) = Inr False" for f
    using that by (simp add: generated [OF g] main_publish_image_not_found [OF nd])
  have uncaught: "main w = (fst (main_generate w), Raise e)"
    if "truthy (dict_get post ''image_file'' PNone)
          \<and> snd (thn (images_dir_div w (dict_get post ''image_file'' PNone))
                   (\<lambda>image_path. of_sum (path_exists w image_path))) = Raise e" for e
    using that by (simp add: generated [OF g] main_publish_path_error [OF nd])
  from week caught no_image not_found uncaught
  show "(\<exists>week. map_of post ''week'' = Some week
        \<and> (\<forall>f e. dict_get post ''image_file'' PNone = PStr f \<and> f \<noteq> []
               \<and> path_exists w (images_dir_join w f) = Inr True
               \<and> (snd (get_person_urn w (LINKEDIN_ACCESS_TOKEN (config w))) = Raise e
                    \<or> (\<exists>urn. snd (get_person_urn w (LINKEDIN_ACCESS_TOKEN (config w))) = Ok urn
                          \<and> (snd (upload_image_to_linkedin w (images_dir_join w f)
                                     (LINKEDIN_ACCESS_TOKEN (config w)) urn) = Raise e
                               \<or> (\<exists>asset. snd (upload_image_to_linkedin w (images_dir_join w f)
                                                  (LINKEDIN_ACCESS_TOKEN (config w)) urn) = Ok asset
                                     \<and> snd (create_linkedin_post w post_text asset
                                              (LINKEDIN_ACCESS_TOKEN (config w)) urn) = Raise e))))
             \<longrightarrow> snd (main w) = SysExit 1
                 \<and> fst (main w) =
                     fst (main_generate w) @ fst (main_try w post post_text (images_dir_join w f))
                       @ Log ERROR (''Failed to post: '' @ exn_str e)
                       # fst (send_slack_notification w
                                (''FAILED to post Week '' @ py_str w week @ '': '' @ exn_str e) False)
                 \<and> (\<forall>url. SLACK_WEBHOOK_URL (config w) = Some url \<and> url \<noteq> [] \<longrightarrow>
                       (Webhook, POST url []
                          (PDict [(''text'', PStr (emoji_cross @ '' FAILED to post Week ''
                                      @ py_str w week @ '': '' @ exn_str e)),
                                  (''username'', PStr ''Bioscope LinkedIn Bot'')]))
                         \<in> set (http_calls (fst (main w))))))
     \<and> (\<not> truthy (dict_get post ''image_file'' PNone) \<longrightarrow>
          main w = (fst (main_generate w) @ [Log ERROR ''No image_file specified in post data''],
                    SysExit 1))
     \<and> (\<forall>f. dict_get post ''image_file'' PNone = PStr f \<and> f \<noteq> []
             \<and> path_exists w (images_dir_join w f) = Inr False \<longrightarrow>
          main w = (fst (main_generate w) @ [Log ERROR (''Image not found: '' @ images_dir_join w f)],
                    SysExit 1))
     \<and> (\<forall>e. truthy (dict_get post ''image_file'' PNone)
             \<and> snd (thn (images_dir_div w (dict_get post ''image_file'' PNone))
                      (\<lambda>image_path. of_sum (path_exists w image_path))) = Raise e \<longrightarrow>
          main w = (fst (main_generate w), Raise e))"
    by (intro conjI exI [of _ week] allI impI) blast+
qed


theorem publish_failure_is_caught_and_reported_witness:
  "snd (main (demo_world\<lparr>requests := failing_userinfo\<rparr>)) = SysExit 1
   \<and> Log ERROR ''Failed to post: Failed to get LinkedIn user info: 500''
       \<in> set (fst (main (demo_world\<lparr>requests := failing_userinfo\<rparr>)))
   \<and> (Webhook, POST ''https://hooks.example/T1'' []
         (PDict [(''text'', PStr (emoji_cross
                     @ '' FAILED to post Week 3: Failed to get LinkedIn user info: 500'')),
                 (''username'', PStr ''Bioscope LinkedIn Bot'')]))
       \<in> set (http_calls (fst (main (demo_world\<lparr>requests := failing_userinfo\<rparr>))))
   \<and> snd (main (demo_world\<lparr>path_exists := image_missing\<rparr>)) = SysExit 1
   \<and> http_calls (fst (main (demo_world\<lparr>path_exists := image_missing\<rparr>))) = []"
proof -
  let ?w1 = "demo_world\<lparr>requests := failing_userinfo\<rparr>"
  let ?w2 = "demo_world\<lparr>path_exists := image_missing\<rparr>"
  let ?post = "demo_entry 3 ''2024-06-02''"
  let ?e = "Exception ''Failed to get LinkedIn user info: 500''"
  have g1: "snd (main_generate ?w1) = Ok (?post, ''Hello'')"
    by (subst main_generate_demo [of _ "''Hello''"]) (simp_all add: demo_world_sel)
  have g2: "snd (main_generate ?w2) = Ok (?post, ''Hello'')"
    by (subst main_generate_demo [of _ "''Hello''"]) (simp_all add: demo_world_sel)
  have nd: "\<not> dry_run (args ?w1)" "\<not> dry_run (args ?w2)"
    by (simp_all add: demo_world_sel)
  have img: "dict_get ?post ''image_file'' PNone = PStr ''w3.jpg''"
    by (simp add: dict_get_def demo_entry_fields)
  have ex1: "path_exists ?w1 (images_dir_join ?w1 ''w3.jpg'') = Inr True"
    by (simp add: demo_world_sel)
  have ex2: "path_exists ?w2 (images_dir_join ?w2 ''w3.jpg'') = Inr False"
    by (simp add: image_missing_def)
  have id1: "snd (get_person_urn ?w1 (LINKEDIN_ACCESS_TOKEN (config ?w1))) = Raise ?e"
    by (subst get_person_urn_not_200
          [where r = "\<lparr>status_code = 500, resp_text = ''boom'',
                 resp_json = Inl (Raised ''JSONDecodeError'' ''Expecting value'')\<rparr>"])
       (simp_all add: failing_userinfo_def str_int_def str_nat.simps digit_char_def)
  note t1 = mp [OF publish_failure_is_caught_and_reported [of ?w1 ?post "''Hello''"]
                   conjI [OF g1 nd(1)]]
  note t2 = mp [OF publish_failure_is_caught_and_reported [of ?w2 ?post "''Hello''"]
                   conjI [OF g2 nd(2)]]
  from t1 obtain week where week: "map_of ?post ''week'' = Some week"
    and c: "\<forall>f e. dict_get ?post ''image_file'' PNone = PStr f \<and> f \<noteq> []
               \<and> path_exists ?w1 (images_dir_join ?w1 f) = Inr True
               \<and> (snd (get_person_urn ?w1 (LINKEDIN_ACCESS_TOKEN (config ?w1))) = Raise e
                    \<or> (\<exists>urn. snd (get_person_urn ?w1 (LINKEDIN_ACCESS_TOKEN (config ?w1))) = Ok urn
                          \<and> (snd (upload_image_to_linkedin ?w1 (images_dir_join ?w1 f)
                                     (LINKEDIN_ACCESS_TOKEN (config ?w1)) urn) = Raise e
                               \<or> (\<exists>asset. snd (upload_image_to_linkedin ?w1 (images_dir_join ?w1 f)
                                                  (LINKEDIN_ACCESS_TOKEN (config ?w1)) urn) = Ok asset
                                     \<and> snd (create_linkedin_post ?w1 ''Hello'' asset
                                              (LINKEDIN_ACCESS_TOKEN (config ?w1)) urn) = Raise e))))
             \<longrightarrow> snd (main ?w1) = SysExit 1
                 \<and> fst (main ?w1) =
                     fst (main_generate ?w1) @ fst (main_try ?w1 ?post ''Hello'' (images_dir_join ?w1 f))
                       @ Log ERROR (''Failed to post: '' @ exn_str e)
                       # fst (send_slack_notification ?w1
                                (''FAILED to post Week '' @ py_str ?w1 week @ '': '' @ exn_str e) False)
                 \<and> (\<forall>url. SLACK_WEBHOOK_URL (config ?w1) = Some url \<and> url \<noteq> [] \<longrightarrow>
                       (Webhook, POST url []
                          (PDict [(''text'', PStr (emoji_cross @ '' FAILED to post Week ''
                                      @ py_str ?w1 week @ '': '' @ exn_str e)),
                                  (''username'', PStr ''Bioscope LinkedIn Bot'')]))
                         \<in> set (http_calls (fst (main ?w1))))"
    by blast
  from week have w3: "week = PInt 3" by (simp add: demo_entry_fields)
  have ne: "''w3.jpg'' \<noteq> []" by simp
  from c [rule_format, of "''w3.jpg''" ?e] img ne ex1 id1
  have r1: "snd (main ?w1) = SysExit 1"
    and r2: "fst (main ?w1) =
                fst (main_generate ?w1) @ fst (main_try ?w1 ?post ''Hello'' (images_dir_join ?w1 ''w3.jpg''))
                  @ Log ERROR (''Failed to post: '' @ exn_str ?e)
                  # fst (send_slack_notification ?w1
                           (''FAILED to post Week '' @ py_str ?w1 week @ '': '' @ exn_str ?e) False)"
    and r3: "\<forall>url. SLACK_WEBHOOK_URL (config ?w1) = Some url \<and> url \<noteq> [] \<longrightarrow>
               (Webhook, POST url []
                  (PDict [(''text'', PStr (emoji_cross @ '' FAILED to post Week ''
                              @ py_str ?w1 week @ '': '' @ exn_str ?e)),
                          (''username'', PStr ''Bioscope LinkedIn Bot'')]))
                 \<in> set (http_calls (fst (main ?w1)))"
    by blast+
  from r2 have l1: "Log ERROR ''Failed to post: Failed to get LinkedIn user info: 500''
       \<in> set (fst (main ?w1))" by simp
  from r3 w3 have n1: "(Webhook, POST ''https://hooks.example/T1'' []
         (PDict [(''text'', PStr (emoji_cross
                     @ '' FAILED to post Week 3: Failed to get LinkedIn user info: 500'')),
                 (''username'', PStr ''Bioscope LinkedIn Bot'')]))
       \<in> set (http_calls (fst (main ?w1)))"
    by (simp add: demo_world_sel str_int_def str_nat.simps digit_char_def)
  from t2 img ne ex2 have "main ?w2 =
      (fst (main_generate ?w2) @ [Log ERROR (''Image not found: '' @ images_dir_join ?w2 ''w3.jpg'')],
       SysExit 1)"
    by blast
  then have r4: "snd (main ?w2) = SysExit 1" and r5: "http_calls (fst (main ?w2)) = []"
    by simp_all
  from r1 l1 n1 r4 r5 show ?thesis by blast
qed

theorem image_check_failure_is_not_reported:
  "snd (main_generate (demo_world\<lparr>path_exists := image_missing\<rparr>))
     = Ok (demo_entry 3 ''2024-06-02'', ''Hello'')
   \<and> \<not> dry_run (args (demo_world\<lparr>path_exists := image_missing\<rparr>))
   \<and> SLACK_WEBHOOK_URL (config (demo_world\<lparr>path_exists := image_missing\<rparr>))
       = Some ''https://hooks.example/T1''
   \<and> snd (main (demo_world\<lparr>path_exists := image_missing\<rparr>)) = SysExit 1
   \<and> last (fst (main (demo_world\<lparr>path_exists := image_missing\<rparr>)))
       = Log ERROR ''Image not found: content/images/w3.jpg''
   \<and> http_calls (fst (main (demo_world\<lparr>path_exists := image_missing\<rparr>))) = []
   \<and> snd (main_generate (demo_world\<lparr>calendar_json := Inr numbered_image_calendar\<rparr>))
       = Ok (hd numbered_image_calendar, ''Hello'')
   \<and> SLACK_WEBHOOK_URL (config (demo_world\<lparr>calendar_json := Inr numbered_image_calendar\<rparr>))
       = Some ''https://hooks.example/T1''
   \<and> snd (main (demo_world\<lparr>calendar_json := Inr numbered_image_calendar\<rparr>))
       = Raise (Raised ''TypeError'' ''unsupported operand'')
   \<and> http_calls (fst (main (demo_world\<lparr>calendar_json := Inr numbered_image_calendar\<rparr>))) = []"
proof -
  let ?w = "demo_world\<lparr>path_exists := image_missing\<rparr>"
  let ?v = "demo_world\<lparr>calendar_json := Inr numbered_image_calendar\<rparr>"
  let ?entry = "hd numbered_image_calendar"
  have g: "snd (main_generate ?w) = Ok (demo_entry 3 ''2024-06-02'', ''Hello'')"
    by (subst main_generate_demo [of _ "''Hello''"]) (simp_all add: demo_world_sel)
  have p: "main_publish ?w (demo_entry 3 ''2024-06-02'') ''Hello'' =
     ([Log ERROR (''Image not found: '' @ images_dir_join ?w ''w3.jpg'')], SysExit 1)"
    by (rule main_publish_image_not_found)
       (simp_all add: demo_world_sel dict_get_def demo_entry_fields image_missing_def)
  have h: "snd (main_generate ?v) = Ok (?entry, ''Hello'')"
    by (subst main_generate_found
          [of ?v "\<lparr>year = 2024, month = 6, day = 2\<rparr>" numbered_image_calendar ?entry
              "''You write posts.''" "PStr ''gene''" "PInt 3" "PDict []" "''Hello''" "[]"])
       (simp_all add: demo_world_sel target_date_demo day_name_demo POSTING_DAYS_def
          numbered_image_calendar_def get_todays_post_def isoformat_demo dict_get_def)
  have q: "main_publish ?v ?entry ''Hello'' = ([], Raise (Raised ''TypeError'' ''unsupported operand''))"
    by (simp add: main_publish_def images_dir_div_def atoms dict_get_def numbered_image_calendar_def
          demo_world_def)
  from generated [OF g] p g generated [OF h] q h show ?thesis
    by (simp add: demo_world_sel)
qed

end
